theory Spec2Isabelle
  imports Complex_Main "HOL-Library.Signed_Division"
begin

section \<open>Conventions of the embedding\<close>

text \<open>
  The exporter is a Go program. Its values are embedded as follows.
  \<^item> \<open>int\<close> (64 bits wide), \<open>int64\<close> and \<open>time.Duration\<close> (nanoseconds) are HOL
    integers; where the source multiplies a configured number into a duration, shifts, or
    subtracts decode time stamps, the 64-bit wrap-around is written out with \<open>wrap64\<close>.
    Packet and byte counters of one sample and differences of clock readings stay far
    below \<open>2 ^ 63\<close> and are not wrapped.
  \<^item> \<open>float64\<close> is \<open>real\<close>: the theory is about the formulas of the source, not about
    the rounding of IEEE arithmetic.
  \<^item> \<open>time.Time\<close> is a clock reading in nanoseconds; a \<open>time.Time\<close> that the source
    tests with \<open>IsZero\<close> is an \<open>int option\<close>, \<open>None\<close> being the zero time.
  \<^item> Locks and log records are left out: every function below is one critical
    section or one sequential call of the source.
\<close>

definition wrap64 :: "int \<Rightarrow> int" where
  "wrap64 x = (x + 2 ^ 63) mod 2 ^ 64 - 2 ^ 63"

definition Second :: int where
  "Second = 1000000000"

definition Millisecond :: int where
  "Millisecond = 1000000"

text \<open>\<open>time.Duration(n) * time.Second\<close> and \<open>time.Duration(n) * time.Millisecond\<close>.\<close>

definition secs :: "int \<Rightarrow> int" where
  "secs n = wrap64 (wrap64 n * Second)"

definition millis :: "int \<Rightarrow> int" where
  "millis n = wrap64 (wrap64 n * Millisecond)"

text \<open>\<open>Duration.Seconds()\<close> and \<open>Duration.Milliseconds()\<close> (integer division truncates).\<close>

definition Seconds :: "int \<Rightarrow> real" where
  "Seconds d = real_of_int d / 1000000000"

definition Milliseconds :: "int \<Rightarrow> int" where
  "Milliseconds d = d sdiv 1000000"


section \<open>config.go\<close>

record ExporterConfig =
  CheckInterval :: int
  SampleDuration :: int
  MinKeyframes :: int
  MaxConcurrent :: int
  MaxRetries :: int
  StallThresholdMs :: int
  ListenAddr :: string
  LogLevel :: string

record StreamConfig =
  cfgURL :: string
  cfgID :: string
  Tag :: string
  Tags :: "string \<rightharpoonup> string"

text \<open>
  \<open>Streams\<close> is a Go map of maps of lists. Go ranges over a map in an unspecified order,
  so the configuration carries the order in which \<open>main\<close> meets the projects and the
  groups: an association list at both levels.
\<close>

record Config =
  Exporter :: ExporterConfig
  Streams :: "(string \<times> (string \<times> StreamConfig list) list) list"


section \<open>The stream checker and its snapshot\<close>

record StreamChecker =
  sid :: string
  url :: string
  project :: string
  line :: string
  labels :: "string \<rightharpoonup> string"
  name :: string
  totalPackets :: int
  videoPackets :: int
  audioPackets :: int
  keyframes :: int
  currentBitrate :: real
  avgBitrate :: real
  bitrateHistory :: "real list"
  framerate :: real
  codec :: string
  response :: int
  gopSize :: int
  width :: int
  height :: int
  quality :: string
  playable :: bool
  bitrateStability :: string
  healthy :: bool
  lastCheckTime :: "int option"
  consecutiveFails :: int
  ttfbMs :: real
  readThroughputBps :: real
  readStallCount :: int
  readStallMaxMs :: real
  readStallTotalMs :: real
  readStallRatio :: real

record StreamMetrics =
  ID :: string
  URL :: string
  Project :: string
  Line :: string
  Labels :: "string \<rightharpoonup> string"
  Name :: string
  TotalPackets :: int
  VideoPackets :: int
  AudioPackets :: int
  Keyframes :: int
  CurrentBitrate :: real
  AvgBitrate :: real
  Framerate :: real
  Codec :: string
  Response :: int
  GOPSize :: int
  Width :: int
  Height :: int
  Quality :: string
  Playable :: bool
  BitrateStability :: string
  Healthy :: bool
  LastCheckTime :: "int option"
  ConsecutiveFails :: int
  ConnectLatencyMs :: real
  TTFBMs :: real
  ReadThroughputBps :: real
  ReadStallCount :: int
  ReadStallMaxMs :: real
  ReadStallTotalMs :: real
  ReadStallRatio :: real

text \<open>
  \<open>NewStreamChecker\<close>. The stream name comes from \<open>extractStreamName\<close>, which parses the
  URL with the standard library; it is the parameter \<open>nm\<close>. Every field the source does
  not name has Go's zero value.
\<close>

definition NewStreamChecker ::
  "(string \<Rightarrow> string \<Rightarrow> string \<Rightarrow> string) \<Rightarrow> string \<Rightarrow> string \<Rightarrow> string \<Rightarrow> string
     \<Rightarrow> (string \<rightharpoonup> string) \<Rightarrow> StreamChecker" where
  "NewStreamChecker nm i u p l lbls =
     \<lparr> sid = i, url = u, project = p, line = l, labels = lbls, name = nm p i u,
       totalPackets = 0, videoPackets = 0, audioPackets = 0, keyframes = 0,
       currentBitrate = 0, avgBitrate = 0, bitrateHistory = [], framerate = 0,
       codec = [], response = 0, gopSize = 0, width = 0, height = 0,
       quality = ''unknown'', playable = False, bitrateStability = [],
       healthy = False, lastCheckTime = None, consecutiveFails = 0,
       ttfbMs = 0, readThroughputBps = 0, readStallCount = 0, readStallMaxMs = 0,
       readStallTotalMs = 0, readStallRatio = 0 \<rparr>"

text \<open>\<open>MarkFailed\<close>; \<open>now\<close> is the reading of \<open>time.Now()\<close>.\<close>

definition MarkFailed :: "int \<Rightarrow> StreamChecker \<Rightarrow> StreamChecker" where
  "MarkFailed now sc =
     sc \<lparr> consecutiveFails := consecutiveFails sc + 1,
          healthy := False,
          playable := False,
          totalPackets := 0,
          videoPackets := 0,
          audioPackets := 0,
          keyframes := 0,
          currentBitrate := 0,
          avgBitrate := 0,
          framerate := 0,
          codec := [],
          response := 0,
          gopSize := 0,
          width := 0,
          height := 0,
          quality := ''poor'',
          bitrateStability := ''unstable'',
          lastCheckTime := Some now,
          ttfbMs := 0,
          readThroughputBps := 0,
          readStallCount := 0,
          readStallMaxMs := 0,
          readStallTotalMs := 0,
          readStallRatio := 0 \<rparr>"

text \<open>\<open>GetMetrics\<close> copies the snapshot; \<open>ConnectLatencyMs\<close> is never assigned.\<close>

definition GetMetrics :: "StreamChecker \<Rightarrow> StreamMetrics" where
  "GetMetrics sc =
     \<lparr> ID = sid sc, URL = url sc, Project = project sc, Line = line sc,
       Labels = labels sc, Name = name sc,
       TotalPackets = totalPackets sc, VideoPackets = videoPackets sc,
       AudioPackets = audioPackets sc, Keyframes = keyframes sc,
       CurrentBitrate = currentBitrate sc, AvgBitrate = avgBitrate sc,
       Framerate = framerate sc, Codec = codec sc, Response = response sc,
       GOPSize = gopSize sc, Width = width sc, Height = height sc,
       Quality = quality sc, Playable = playable sc,
       BitrateStability = bitrateStability sc, Healthy = healthy sc,
       LastCheckTime = lastCheckTime sc, ConsecutiveFails = consecutiveFails sc,
       ConnectLatencyMs = 0,
       TTFBMs = ttfbMs sc, ReadThroughputBps = readThroughputBps sc,
       ReadStallCount = readStallCount sc, ReadStallMaxMs = readStallMaxMs sc,
       ReadStallTotalMs = readStallTotalMs sc, ReadStallRatio = readStallRatio sc \<rparr>"


section \<open>Exposition: \<open>updateMetrics\<close>\<close>

definition allowedTagKeys :: "string set" where
  "allowedTagKeys = {''table'', ''desk'', ''biz'', ''isp'', ''role''}"

definition getPrometheusLabels :: "StreamMetrics \<Rightarrow> (string \<rightharpoonup> string)" where
  "getPrometheusLabels m =
     (\<lambda>k. if k = ''project'' then Some (Project m)
          else if k = ''line'' then Some (Line m)
          else if k = ''id'' then Some (ID m)
          else if k \<in> allowedTagKeys then Labels m k
          else None)"

text \<open>Reading a Go map at a missing key gives the empty string.\<close>

definition lookup_str :: "(string \<rightharpoonup> string) \<Rightarrow> string \<Rightarrow> string" where
  "lookup_str m k = (case m k of None \<Rightarrow> [] | Some v \<Rightarrow> v)"

definition qualityScore :: "StreamMetrics \<Rightarrow> real" where
  "qualityScore m =
     (if Quality m = ''good'' then 2
      else if Quality m = ''fair'' then 1
      else if Quality m = ''poor'' then 0
      else 0)"

definition stabilityScore :: "StreamMetrics \<Rightarrow> real" where
  "stabilityScore m =
     (if BitrateStability m = ''stable'' then 2
      else if BitrateStability m = ''moderate'' then 1
      else if BitrateStability m = ''unstable'' then 0
      else 0)"

definition overallScore :: "StreamMetrics \<Rightarrow> real" where
  "overallScore m =
     (if ReadStallRatio m > 0.5 then 0
      else if qualityScore m = 2 \<and> stabilityScore m = 2 then 2
      else if qualityScore m = 2 \<and> stabilityScore m = 1 then 1
      else if qualityScore m = 2 \<and> stabilityScore m = 0 then 0
      else if qualityScore m = 1 \<and> stabilityScore m = 2 then 1
      else if qualityScore m = 1 \<and> stabilityScore m = 1 then 1
      else if qualityScore m = 1 \<and> stabilityScore m = 0 then 0
      else 0)"

text \<open>One pass of the loop of \<open>updateMetrics\<close>: the gauges set for one snapshot.\<close>

record gauge_row =
  labelValues :: "string list"
  video_stream_up :: real
  video_stream_healthy :: real
  video_stream_playable :: real
  video_stream_total_packets :: real
  video_stream_video_packets :: real
  video_stream_audio_packets :: real
  video_stream_keyframes :: real
  video_stream_bitrate_bps :: real
  video_stream_avg_bitrate_bps :: real
  video_stream_framerate :: real
  video_stream_response_ms :: real
  video_stream_gop_size :: real
  video_stream_quality_score :: real
  video_stream_stability_score :: real
  video_stream_overall_score :: real
  video_stream_ttfb_ms :: real
  video_stream_read_throughput_bps :: real
  video_stream_read_stall_count :: real
  video_stream_read_stall_max_ms :: real
  video_stream_read_stall_total_ms :: real
  video_stream_read_stall_ratio :: real

definition updateMetrics_row :: "StreamMetrics \<Rightarrow> gauge_row" where
  "updateMetrics_row m =
     (let promLabels = getPrometheusLabels m in
      \<lparr> labelValues = map (lookup_str promLabels)
          [''project'', ''line'', ''id'', ''table'', ''desk'', ''biz'', ''isp'', ''role''],
        video_stream_up = (if Healthy m then 1 else 0),
        video_stream_healthy = (if Healthy m \<and> ConsecutiveFails m = 0 then 1 else 0),
        video_stream_playable = (if Playable m then 1 else 0),
        video_stream_total_packets = real_of_int (TotalPackets m),
        video_stream_video_packets = real_of_int (VideoPackets m),
        video_stream_audio_packets = real_of_int (AudioPackets m),
        video_stream_keyframes = real_of_int (Keyframes m),
        video_stream_bitrate_bps = CurrentBitrate m,
        video_stream_avg_bitrate_bps = AvgBitrate m,
        video_stream_framerate = Framerate m,
        video_stream_response_ms = real_of_int (Response m),
        video_stream_gop_size = real_of_int (GOPSize m),
        video_stream_quality_score = qualityScore m,
        video_stream_stability_score = stabilityScore m,
        video_stream_overall_score = overallScore m,
        video_stream_ttfb_ms = TTFBMs m,
        video_stream_read_throughput_bps = ReadThroughputBps m,
        video_stream_read_stall_count = real_of_int (ReadStallCount m),
        video_stream_read_stall_max_ms = ReadStallMaxMs m,
        video_stream_read_stall_total_ms = ReadStallTotalMs m,
        video_stream_read_stall_ratio = ReadStallRatio m \<rparr>)"

definition updateMetrics :: "StreamMetrics list \<Rightarrow> gauge_row list" where
  "updateMetrics ms = map updateMetrics_row ms"


section \<open>The stall-tracking reader\<close>

record stallTrackingReader =
  totalBytes :: int
  stallCount :: int
  maxStall :: int
  totalStall :: int
  firstReadTime :: "int option"
  firstReadDone :: bool
  stallThreshold :: int

text \<open>
  One call of the wrapped reader, as the tracking reader sees it: the clock before the
  call, the number of bytes returned and \<open>time.Since(readStart)\<close> after it.
\<close>

record raw_read =
  readStart :: int
  n_read :: int
  read_elapsed :: int

definition Read_tr :: "raw_read \<Rightarrow> stallTrackingReader \<Rightarrow> stallTrackingReader" where
  "Read_tr rr r =
     (let r1 = (if n_read rr > 0 \<and> \<not> firstReadDone r
                then r \<lparr> firstReadTime := Some (readStart rr), firstReadDone := True \<rparr>
                else r);
          r2 = (if n_read rr > 0
                then r1 \<lparr> totalBytes := totalBytes r1 + n_read rr \<rparr>
                else r1)
      in if read_elapsed rr > stallThreshold r2
         then r2 \<lparr> stallCount := stallCount r2 + 1,
                   maxStall := (if read_elapsed rr > maxStall r2 then read_elapsed rr
                                else maxStall r2),
                   totalStall := totalStall r2 + read_elapsed rr \<rparr>
         else r2)"

definition getStallThreshold :: "Config option \<Rightarrow> int" where
  "getStallThreshold globalConfig =
     (case globalConfig of
        Some c \<Rightarrow>
          if StallThresholdMs (Exporter c) > 0 then millis (StallThresholdMs (Exporter c))
          else 200 * Millisecond
      | None \<Rightarrow> 200 * Millisecond)"


section \<open>The sampler: \<open>Check\<close>\<close>

datatype pkt_type = Metadata | H264 | AAC | OtherType

record Packet =
  pktType :: pkt_type
  pktTime :: int
  IsKeyFrame :: bool

text \<open>What one call of \<open>demuxer.ReadPacket\<close> returns.\<close>

datatype read_result = Pkt Packet | ReadEOF | ReadFailure

text \<open>
  One pass of the sampling loop as the environment decides it: the clock read at the top
  of the loop, the clock read before \<open>ReadPacket\<close>, the reads \<open>ReadPacket\<close> makes on the
  tracking reader, and its result. A body that ends is a step list that ends: the next
  \<open>ReadPacket\<close> reports \<open>io.EOF\<close>.
\<close>

record loop_step =
  loopNow :: int
  pktRecvTime :: int
  rawReads :: "raw_read list"
  readPacket :: read_result

datatype http_outcome = NewRequestError | DoError bool | DoResponse int

text \<open>
  Everything outside the program that one call of \<open>Check\<close> observes. \<open>DoError d\<close> is a
  failed \<open>Do\<close>, \<open>d\<close> telling whether the context's deadline had passed; \<open>DoResponse c\<close> is a
  response with status \<open>c\<close>. \<open>responseHeaderTime\<close> is \<open>time.Since(reqStart)\<close> after \<open>Do\<close>,
  \<open>endTime\<close> the clock at \<open>time.Since(startTime)\<close> after the loop, \<open>commitTime\<close> the clock
  at the commit.
\<close>

record attempt =
  startTime :: int
  reqStart :: int
  http :: http_outcome
  responseHeaderTime :: int
  sampleStartTime :: int
  steps :: "loop_step list"
  endTime :: int
  commitTime :: int

datatype check_error =
  CreateRequestFailed | RequestTimeout | ConnectFailed | HTTPStatus int
  | ReadPacketFailed | NoVideoStream

text \<open>
  The local variables of the sampling loop; \<open>loopCodec\<close> is the field \<open>sc.codec\<close>, which
  the loop writes directly.
\<close>

record sample_state =
  reader :: stallTrackingReader
  hasVideo :: bool
  hasMetadata :: bool
  packetCount :: int
  videoCount :: int
  audioCount :: int
  keyframeCount :: int
  firstPacketTime :: "int option"
  firstDTS :: int
  lastDTS :: int
  loopCodec :: string

definition init_sample :: "int \<Rightarrow> string \<Rightarrow> sample_state" where
  "init_sample threshold c =
     \<lparr> reader = \<lparr> totalBytes = 0, stallCount = 0, maxStall = 0, totalStall = 0,
                  firstReadTime = None, firstReadDone = False,
                  stallThreshold = threshold \<rparr>,
       hasVideo = False, hasMetadata = False,
       packetCount = 0, videoCount = 0, audioCount = 0, keyframeCount = 0,
       firstPacketTime = None, firstDTS = 0, lastDTS = 0, loopCodec = c \<rparr>"

text \<open>The body of the loop after a packet was read.\<close>

definition count_packet :: "int \<Rightarrow> Packet \<Rightarrow> sample_state \<Rightarrow> sample_state" where
  "count_packet recvTime pkt st =
     (let st1 = st \<lparr> packetCount := packetCount st + 1 \<rparr>;
          st2 = (if pktType pkt = Metadata \<and> \<not> hasMetadata st1
                 then st1 \<lparr> hasMetadata := True \<rparr> else st1)
      in case pktType pkt of
           H264 \<Rightarrow>
             (let st3 = st2 \<lparr> videoCount := videoCount st2 + 1, hasVideo := True \<rparr>;
                  st4 = (if IsKeyFrame pkt
                         then st3 \<lparr> keyframeCount := keyframeCount st3 + 1 \<rparr> else st3);
                  st5 = (if firstPacketTime st4 = None
                         then st4 \<lparr> firstPacketTime := Some recvTime,
                                    firstDTS := pktTime pkt \<rparr>
                         else st4);
                  st6 = st5 \<lparr> lastDTS := pktTime pkt \<rparr>
              in if loopCodec st6 = [] then st6 \<lparr> loopCodec := ''H264'' \<rparr> else st6)
         | AAC \<Rightarrow> st2 \<lparr> audioCount := audioCount st2 + 1 \<rparr>
         | _ \<Rightarrow> st2)"

text \<open>
  The sampling loop. The result is \<open>False\<close> with the state reached when \<open>ReadPacket\<close>
  fails (the source returns the error there), \<open>True\<close> with the state at the \<open>break\<close>
  otherwise.
\<close>

fun sample_loop ::
  "int \<Rightarrow> int \<Rightarrow> int \<Rightarrow> loop_step list \<Rightarrow> sample_state \<Rightarrow> bool \<times> sample_state" where
  "sample_loop sampleDuration minKeyframes sampleStart [] st = (True, st)"
| "sample_loop sampleDuration minKeyframes sampleStart (x # xs) st =
     (let elapsed = loopNow x - sampleStart in
      if elapsed \<ge> sampleDuration \<and> keyframeCount st \<ge> minKeyframes then (True, st)
      else if elapsed \<ge> wrap64 (sampleDuration * 2) then (True, st)
      else
        (let st1 = st \<lparr> reader := foldl (\<lambda>r rr. Read_tr rr r) (reader st) (rawReads x) \<rparr>
         in case readPacket x of
              ReadFailure \<Rightarrow> (False, st1)
            | ReadEOF \<Rightarrow> (True, st1)
            | Pkt pkt \<Rightarrow>
                sample_loop sampleDuration minKeyframes sampleStart xs
                  (count_packet (pktRecvTime x) pkt st1)))"

text \<open>The frame rate and the bit rate of the cycle (the source's lines after the commit of the counters).\<close>

definition set_rates :: "sample_state \<Rightarrow> int \<Rightarrow> StreamChecker \<Rightarrow> StreamChecker" where
  "set_rates st duration sc =
     (if firstPacketTime st \<noteq> None \<and> lastDTS st > firstDTS st then
        (let dtsElapsed = real_of_int (wrap64 (lastDTS st - firstDTS st)) / 1000000000 in
         if dtsElapsed > 0
         then sc \<lparr> framerate := real_of_int (videoCount st) / dtsElapsed,
                   currentBitrate := (real_of_int (totalBytes (reader st)) * 8) / dtsElapsed \<rparr>
         else sc)
      else if Seconds duration > 0
      then sc \<lparr> currentBitrate := (real_of_int (totalBytes (reader st)) * 8) / Seconds duration \<rparr>
      else sc)"

text \<open>The label of the coefficient of variation of a history of at least three bit rates.\<close>

definition stability_label :: "real list \<Rightarrow> real \<Rightarrow> string" where
  "stability_label h avg =
     (let variance = (\<Sum>x\<leftarrow>h. (x - avg) * (x - avg)) / real (length h);
          stdDev = sqrt variance
      in if avg > 0 then
           (let cv = stdDev / avg in
            if cv < 0.15 then ''stable''
            else if cv < 0.30 then ''moderate''
            else ''unstable'')
         else ''unknown'')"

definition update_history :: "StreamChecker \<Rightarrow> StreamChecker" where
  "update_history sc =
     (if currentBitrate sc > 0 then
        (let h1 = bitrateHistory sc @ [currentBitrate sc];
             h2 = (if length h1 > 10 then drop 1 h1 else h1);
             historyLen = (if length h1 > 10 then 10 else length h1);
             avg = sum_list (take historyLen h2) / real historyLen
         in sc \<lparr> bitrateHistory := h2,
                 avgBitrate := avg,
                 bitrateStability :=
                   (if historyLen \<ge> 3 then stability_label (take historyLen h2) avg
                    else ''unknown'') \<rparr>)
      else sc)"

definition assess_quality :: "sample_state \<Rightarrow> StreamChecker \<Rightarrow> StreamChecker" where
  "assess_quality st sc =
     (let sc1 = sc \<lparr> playable := (keyframeCount st \<ge> 2 \<and> videoCount st > 10) \<rparr> in
      if playable sc1 then
        (if framerate sc1 \<ge> 25 \<and> currentBitrate sc1 \<ge> 600000
         then sc1 \<lparr> quality := ''good'' \<rparr>
         else if framerate sc1 \<ge> 20 \<and> currentBitrate sc1 \<ge> 400000
         then sc1 \<lparr> quality := ''fair'' \<rparr>
         else sc1 \<lparr> quality := ''poor'' \<rparr>)
      else sc1 \<lparr> quality := ''poor'' \<rparr>)"

text \<open>
  The part of \<open>Check\<close> after the loop has ended with a video packet seen: the derived
  values and the commit under the lock.
\<close>

definition commit_sample :: "attempt \<Rightarrow> sample_state \<Rightarrow> StreamChecker \<Rightarrow> StreamChecker" where
  "commit_sample env st sc =
     (let duration = endTime env - startTime env;
          keyframeInterval =
            (if keyframeCount st > 1 then videoCount st sdiv keyframeCount st
             else if keyframeCount st = 1 then videoCount st
             else 0);
          ttfb = (case firstReadTime (reader st) of
                    None \<Rightarrow> 0
                  | Some t \<Rightarrow> Seconds (t - reqStart env) * 1000);
          sampleDurationSeconds = Seconds duration;
          throughput =
            (if sampleDurationSeconds > 0
             then real_of_int (totalBytes (reader st) * 8) / sampleDurationSeconds
             else 0);
          ratio =
            (if sampleDurationSeconds > 0
             then (let r = Seconds (totalStall (reader st)) / sampleDurationSeconds
                   in if r > 1 then 1 else r)
             else 0);
          sc1 = sc \<lparr> codec := loopCodec st,
                     totalPackets := packetCount st,
                     videoPackets := videoCount st,
                     audioPackets := audioCount st,
                     keyframes := keyframeCount st,
                     lastCheckTime := Some (commitTime env),
                     healthy := True,
                     consecutiveFails := 0,
                     gopSize := keyframeInterval,
                     response := Milliseconds (responseHeaderTime env),
                     ttfbMs := ttfb,
                     readThroughputBps := throughput,
                     readStallCount := stallCount (reader st),
                     readStallMaxMs := Seconds (maxStall (reader st)) * 1000,
                     readStallTotalMs := Seconds (totalStall (reader st)) * 1000,
                     readStallRatio := ratio \<rparr>
      in assess_quality st (update_history (set_rates st duration sc1)))"

text \<open>
  \<open>Check\<close>: the error returned (\<open>None\<close> for \<open>nil\<close>) and the checker afterwards. The
  time-out acts through the context of the request only, that is through what the
  environment reports.
\<close>

definition Check ::
  "Config option \<Rightarrow> attempt \<Rightarrow> int \<Rightarrow> StreamChecker \<Rightarrow> check_error option \<times> StreamChecker" where
  "Check globalConfig env timeout sc =
     (case http env of
        NewRequestError \<Rightarrow> (Some CreateRequestFailed, sc)
      | DoError deadlineExceeded \<Rightarrow>
          (Some (if deadlineExceeded then RequestTimeout else ConnectFailed), sc)
      | DoResponse status \<Rightarrow>
          if status \<noteq> 200 then (Some (HTTPStatus status), sc)
          else
            (let sampleDurationSec =
                   (case globalConfig of
                      Some c \<Rightarrow> if SampleDuration (Exporter c) > 0
                                then SampleDuration (Exporter c) else 10
                    | None \<Rightarrow> 10);
                 minKeyframes =
                   (case globalConfig of
                      Some c \<Rightarrow> if MinKeyframes (Exporter c) > 0
                                then MinKeyframes (Exporter c) else 2
                    | None \<Rightarrow> 2);
                 sampleDuration = secs sampleDurationSec;
                 (ok, st) = sample_loop sampleDuration minKeyframes (sampleStartTime env)
                              (steps env)
                              (init_sample (getStallThreshold globalConfig) (codec sc))
             in if \<not> ok then (Some ReadPacketFailed, sc \<lparr> codec := loopCodec st \<rparr>)
                else if \<not> hasVideo st then (Some NoVideoStream, sc \<lparr> codec := loopCodec st \<rparr>)
                else (None, commit_sample env st sc)))"


section \<open>scheduler.go\<close>

record Scheduler =
  checkers :: "string \<rightharpoonup> StreamChecker"
  config :: Config

definition NewScheduler :: "Config \<Rightarrow> Scheduler" where
  "NewScheduler cfg = \<lparr> checkers = Map.empty, config = cfg \<rparr>"

definition stream_key :: "string \<Rightarrow> string \<Rightarrow> string \<Rightarrow> string" where
  "stream_key p l u = p @ ''::'' @ l @ ''::'' @ u"

definition AddStream ::
  "(string \<Rightarrow> string \<Rightarrow> string \<Rightarrow> string) \<Rightarrow> string \<Rightarrow> string \<Rightarrow> string \<Rightarrow> string
     \<Rightarrow> (string \<rightharpoonup> string) \<Rightarrow> Scheduler \<Rightarrow> Scheduler" where
  "AddStream nm i u p l lbls s =
     s \<lparr> checkers := (checkers s)(stream_key p l u \<mapsto> NewStreamChecker nm i u p l lbls) \<rparr>"

text \<open>
  \<open>GetAllMetrics\<close> ranges over the map. \<open>order\<close> is the order in which the range meets
  the keys: a list of the keys of the map, each once.
\<close>

definition GetAllMetrics :: "string list \<Rightarrow> Scheduler \<Rightarrow> StreamMetrics list" where
  "GetAllMetrics order s = map GetMetrics (List.map_filter (checkers s) order)"

text \<open>The time-out \<open>checkWithRetry\<close> computes before its loop.\<close>

definition attempt_timeout :: "ExporterConfig \<Rightarrow> int" where
  "attempt_timeout e =
     (let sampleDurationSec = (if SampleDuration e > 0 then SampleDuration e else 10);
          timeout = secs (wrap64 (sampleDurationSec + 5))
      in if CheckInterval e > 20 then secs (wrap64 (CheckInterval e - 5)) else timeout)"

text \<open>\<open>time.Duration(1<<uint(attempt)) * time.Second\<close>, for \<open>attempt \<ge> 0\<close>.\<close>

definition retryDelay :: "int \<Rightarrow> int" where
  "retryDelay attempt = wrap64 (wrap64 (2 ^ nat attempt) * Second)"

text \<open>What \<open>checkWithRetry\<close> does, in order.\<close>

datatype retry_event = Slept int | Checked "check_error option" | MarkedFailed

text \<open>
  The loop of \<open>checkWithRetry\<close>. \<open>world k\<close> is what the call of \<open>Check\<close> in pass \<open>k\<close>
  observes, \<open>failTime\<close> the clock \<open>MarkFailed\<close> reads. A time-out of \<open>time.Sleep\<close> that is
  zero or negative returns at once; it is recorded as it is.
\<close>

function retry_loop ::
  "Config option \<Rightarrow> int \<Rightarrow> int \<Rightarrow> (nat \<Rightarrow> attempt) \<Rightarrow> int \<Rightarrow> int \<Rightarrow> check_error option
     \<Rightarrow> StreamChecker \<Rightarrow> retry_event list
     \<Rightarrow> check_error option \<times> StreamChecker \<times> retry_event list" where
  "retry_loop globalConfig maxRetries timeout world failTime attempt lastErr sc evs =
     (if attempt \<le> maxRetries then
        (let evs1 = (if attempt > 0 then evs @ [Slept (retryDelay attempt)] else evs);
             r = Check globalConfig (world (nat attempt)) timeout sc
         in case fst r of
              None \<Rightarrow> (None, snd r, evs1 @ [Checked None])
            | Some e \<Rightarrow>
                retry_loop globalConfig maxRetries timeout world failTime (attempt + 1)
                  (Some e) (snd r) (evs1 @ [Checked (Some e)]))
      else (lastErr, MarkFailed failTime sc, evs @ [MarkedFailed]))"
  by pat_completeness auto
termination
  by (relation "measure (\<lambda>(g, m, t, w, f, a, l, s, e). nat (m + 1 - a))") auto

declare retry_loop.simps [simp del]

definition checkWithRetry ::
  "Config option \<Rightarrow> Scheduler \<Rightarrow> (nat \<Rightarrow> attempt) \<Rightarrow> int \<Rightarrow> StreamChecker
     \<Rightarrow> check_error option \<times> StreamChecker \<times> retry_event list" where
  "checkWithRetry globalConfig s world failTime checker =
     retry_loop globalConfig (MaxRetries (Exporter (config s)))
       (attempt_timeout (Exporter (config s))) world failTime 0 None checker []"


section \<open>main.go: registering the configured streams\<close>

definition stream_tags :: "string \<Rightarrow> string \<Rightarrow> StreamConfig \<Rightarrow> (string \<rightharpoonup> string)" where
  "stream_tags projectID l sc =
     (let tags = Tags sc;
          tags1 = (if Tag sc \<noteq> [] \<and> tags ''tag'' = None then tags(''tag'' \<mapsto> Tag sc) else tags)
      in tags1(''project'' \<mapsto> projectID, ''line'' \<mapsto> l, ''id'' \<mapsto> cfgID sc))"

definition add_entry ::
  "(string \<Rightarrow> string \<Rightarrow> string \<Rightarrow> string) \<Rightarrow> string \<Rightarrow> string \<Rightarrow> Scheduler \<Rightarrow> StreamConfig
     \<Rightarrow> Scheduler" where
  "add_entry nm projectID l s sc =
     AddStream nm (cfgID sc) (cfgURL sc) projectID l (stream_tags projectID l sc) s"

text \<open>
  The three nested ranges of \<open>main\<close>; \<open>toLower\<close> is \<open>strings.ToLower\<close> of the standard
  library.
\<close>

definition add_group ::
  "(string \<Rightarrow> string) \<Rightarrow> (string \<Rightarrow> string \<Rightarrow> string \<Rightarrow> string) \<Rightarrow> string \<Rightarrow> Scheduler
     \<Rightarrow> string \<times> StreamConfig list \<Rightarrow> Scheduler" where
  "add_group toLower nm projectID s g =
     foldl (add_entry nm projectID (toLower (fst g))) s (snd g)"

definition add_project ::
  "(string \<Rightarrow> string) \<Rightarrow> (string \<Rightarrow> string \<Rightarrow> string \<Rightarrow> string) \<Rightarrow> Scheduler
     \<Rightarrow> string \<times> (string \<times> StreamConfig list) list \<Rightarrow> Scheduler" where
  "add_project toLower nm s p = foldl (add_group toLower nm (fst p)) s (snd p)"

definition register_streams ::
  "(string \<Rightarrow> string) \<Rightarrow> (string \<Rightarrow> string \<Rightarrow> string \<Rightarrow> string) \<Rightarrow> Config \<Rightarrow> Scheduler" where
  "register_streams toLower nm cfg = foldl (add_project toLower nm) (NewScheduler cfg) (Streams cfg)"


section \<open>Histories of one checker\<close>

text \<open>
  The operations that write a checker are \<open>Check\<close> and \<open>MarkFailed\<close>. A history is a list
  of them, each with what it observes, run from a new checker.
\<close>

datatype checker_op = OpCheck attempt int | OpMarkFailed int

fun apply_op :: "Config option \<Rightarrow> StreamChecker \<Rightarrow> checker_op \<Rightarrow> StreamChecker" where
  "apply_op globalConfig sc (OpCheck env timeout) = snd (Check globalConfig env timeout sc)"
| "apply_op globalConfig sc (OpMarkFailed now) = MarkFailed now sc"

definition run_ops :: "Config option \<Rightarrow> checker_op list \<Rightarrow> StreamChecker \<Rightarrow> StreamChecker" where
  "run_ops globalConfig ops sc = foldl (apply_op globalConfig) sc ops"

section \<open>Runs of the retry wrapper\<close>

text \<open>
  To state what \<open>checkWithRetry\<close> does for any environment: \<open>state_before k\<close> is the checker
  when pass \<open>k\<close> of the loop starts, provided all earlier passes ran, and \<open>result_of k\<close> is
  what \<open>Check\<close> returns in that pass. \<open>events_from r a n\<close> lists the events of the \<open>n\<close>
  passes starting with pass \<open>a\<close>, given the results \<open>r\<close>.
\<close>

fun state_before ::
  "Config option \<Rightarrow> int \<Rightarrow> (nat \<Rightarrow> attempt) \<Rightarrow> StreamChecker \<Rightarrow> nat \<Rightarrow> StreamChecker" where
  "state_before gc T w sc 0 = sc"
| "state_before gc T w sc (Suc k) = snd (Check gc (w k) T (state_before gc T w sc k))"

definition result_of ::
  "Config option \<Rightarrow> int \<Rightarrow> (nat \<Rightarrow> attempt) \<Rightarrow> StreamChecker \<Rightarrow> nat \<Rightarrow> check_error option" where
  "result_of gc T w sc k = fst (Check gc (w k) T (state_before gc T w sc k))"

fun events_from :: "(nat \<Rightarrow> check_error option) \<Rightarrow> nat \<Rightarrow> nat \<Rightarrow> retry_event list" where
  "events_from r a 0 = []"
| "events_from r a (Suc n) =
     (if a > 0 then [Slept (retryDelay (int a))] else []) @ [Checked (r a)]
       @ events_from r (Suc a) n"

fun is_check :: "retry_event \<Rightarrow> bool" where
  "is_check (Checked r) = True"
| "is_check e = False"


section \<open>The sampling loop of a call\<close>

text \<open>
  The result of the sampling loop that a call of \<open>Check\<close> runs once it has received a
  response with status 200: whether the loop ended without a failed read, and the state
  of its local variables at that point. \<open>hasVideo\<close> of that state tells whether a video
  packet was read.
\<close>

definition loop_end :: "Config option \<Rightarrow> attempt \<Rightarrow> StreamChecker \<Rightarrow> bool \<times> sample_state" where
  "loop_end gc env sc =
     sample_loop
       (secs (case gc of Some c \<Rightarrow> if SampleDuration (Exporter c) > 0
                                   then SampleDuration (Exporter c) else 10 | None \<Rightarrow> 10))
       (case gc of Some c \<Rightarrow> if MinKeyframes (Exporter c) > 0
                             then MinKeyframes (Exporter c) else 2 | None \<Rightarrow> 2)
       (sampleStartTime env) (steps env)
       (init_sample (getStallThreshold gc) (codec sc))"


section \<open>The registered entries in order\<close>

text \<open>
  The entries of the configuration in the order in which \<open>main\<close> registers them, each with
  its project and its lower-cased group; the key and the checker \<open>AddStream\<close> makes for an
  entry; and the registration of one such entry.
\<close>

definition entries :: "(string \<Rightarrow> string) \<Rightarrow> Config \<Rightarrow> (string \<times> string \<times> StreamConfig) list" where
  "entries toLower cfg =
     concat (map (\<lambda>p. concat (map (\<lambda>g. map (\<lambda>e. (fst p, toLower (fst g), e)) (snd g)) (snd p)))
       (Streams cfg))"

definition entry_key :: "string \<times> string \<times> StreamConfig \<Rightarrow> string" where
  "entry_key x = stream_key (fst x) (fst (snd x)) (cfgURL (snd (snd x)))"

definition entry_checker ::
  "(string \<Rightarrow> string \<Rightarrow> string \<Rightarrow> string) \<Rightarrow> string \<times> string \<times> StreamConfig \<Rightarrow> StreamChecker" where
  "entry_checker nm x =
     NewStreamChecker nm (cfgID (snd (snd x))) (cfgURL (snd (snd x))) (fst x) (fst (snd x))
       (stream_tags (fst x) (fst (snd x)) (snd (snd x)))"

definition add_flat ::
  "(string \<Rightarrow> string \<Rightarrow> string \<Rightarrow> string) \<Rightarrow> Scheduler \<Rightarrow> string \<times> string \<times> StreamConfig \<Rightarrow> Scheduler" where
  "add_flat nm s x = add_entry nm (fst x) (fst (snd x)) s (snd (snd x))"


text \<open>Every checker of the map sits at the key made of its own project, line and URL.\<close>

definition keyed_by_triple :: "Scheduler \<Rightarrow> bool" where
  "keyed_by_triple s =
     (\<forall>k c. checkers s k = Some c \<longrightarrow> k = stream_key (project c) (line c) (url c))"


section \<open>Definitions from the words of the specification\<close>

text \<open>
  The table of the specification (section 4.4), written from its rows: quality and
  stability levels are 0, 1 or 2, and a pair outside the listed rows gives 0.
\<close>

fun overall_table :: "nat \<Rightarrow> nat \<Rightarrow> nat" where
  "overall_table (Suc (Suc 0)) (Suc (Suc 0)) = 2"
| "overall_table (Suc (Suc 0)) (Suc 0) = 1"
| "overall_table (Suc (Suc 0)) 0 = 0"
| "overall_table (Suc 0) (Suc (Suc 0)) = 1"
| "overall_table (Suc 0) (Suc 0) = 1"
| "overall_table (Suc 0) 0 = 0"
| "overall_table q s = 0"

text \<open>
  The projection of the labels to integers: good 2, fair 1, poor 0; stable 2, moderate 1,
  unstable and unknown 0. Any other label counts 0.
\<close>

definition quality_level :: "string \<Rightarrow> nat" where
  "quality_level q = (if q = ''good'' then 2 else if q = ''fair'' then 1 else 0)"

definition stability_level :: "string \<Rightarrow> nat" where
  "stability_level s = (if s = ''stable'' then 2 else if s = ''moderate'' then 1 else 0)"


text \<open>The quality label of section 4.4, from the playable flag, the frame rate and the bit rate.\<close>

definition quality_rule :: "bool \<Rightarrow> real \<Rightarrow> real \<Rightarrow> string" where
  "quality_rule p fr br =
     (if \<not> p then ''poor''
      else if fr \<ge> 25 \<and> br \<ge> 600000 then ''good''
      else if fr \<ge> 20 \<and> br \<ge> 400000 then ''fair''
      else ''poor'')"


text \<open>The arithmetic mean; it is used on non-empty lists only.\<close>

definition mean :: "real list \<Rightarrow> real" where
  "mean xs = sum_list xs / real (length xs)"


section \<open>Invariants of a checker\<close>

definition playable_consistent :: "StreamChecker \<Rightarrow> bool" where
  "playable_consistent sc = (playable sc = (keyframes sc \<ge> 2 \<and> videoPackets sc > 10))"

definition history_consistent :: "StreamChecker \<Rightarrow> bool" where
  "history_consistent sc =
     (length (bitrateHistory sc) \<le> 10
      \<and> (avgBitrate sc = 0 \<or> (bitrateHistory sc \<noteq> [] \<and> avgBitrate sc = mean (bitrateHistory sc))))"


section \<open>Sample inputs\<close>

text \<open>
  A configuration with the documented defaults, a new checker, and environments of single
  calls of \<open>Check\<close>, each with the state in which its sampling loop ends:
  \<^item> \<open>good_env\<close>: eleven video packets of 3000 bytes, two of them key frames, over 0.44 s
    of decode time, then the end of the body;
  \<^item> \<open>late_env\<close>: the response headers arrive after 1 s, one read of 1100 bytes then blocks
    for 5.5 s and yields one video packet, and the call ends 11 s after it began;
  \<^item> \<open>single_env\<close>: one video packet, then the end of the body;
  \<^item> \<open>broken_env\<close>: one video packet, then a failed read;
  \<^item> \<open>blind_env\<close>: a failed read before any packet;
  \<^item> \<open>refused_env\<close>: the connection is refused.
\<close>

definition example_name :: "string \<Rightarrow> string \<Rightarrow> string \<Rightarrow> string" where
  "example_name p i u = p @ ''_'' @ i"

definition example_config :: Config where
  "example_config =
     \<lparr> Exporter = \<lparr> CheckInterval = 30, SampleDuration = 10, MinKeyframes = 2,
                    MaxConcurrent = 1000, MaxRetries = 3, StallThresholdMs = 200,
                    ListenAddr = ''8080'', LogLevel = ''info'' \<rparr>,
       Streams = [] \<rparr>"

definition new_checker :: StreamChecker where
  "new_checker = NewStreamChecker example_name ''s1'' ''http://h/a.flv'' ''G01'' ''cdn'' Map.empty"

definition video_step :: "int \<Rightarrow> int \<Rightarrow> int \<Rightarrow> bool \<Rightarrow> loop_step" where
  "video_step now bytes dts key =
     \<lparr> loopNow = now, pktRecvTime = now,
       rawReads = [\<lparr> readStart = now, n_read = bytes, read_elapsed = 0 \<rparr>],
       readPacket = Pkt \<lparr> pktType = H264, pktTime = dts, IsKeyFrame = key \<rparr> \<rparr>"

definition good_env :: attempt where
  "good_env =
     \<lparr> startTime = 0, reqStart = 0, http = DoResponse 200, responseHeaderTime = 0,
       sampleStartTime = 0,
       steps = [video_step 0 3000 0 True, video_step 0 3000 0 False, video_step 0 3000 0 False,
                video_step 0 3000 0 False, video_step 0 3000 0 False, video_step 0 3000 0 False,
                video_step 0 3000 0 False, video_step 0 3000 0 False, video_step 0 3000 0 False,
                video_step 0 3000 0 False, video_step 0 3000 440000000 True],
       endTime = 10000000000, commitTime = 10000000000 \<rparr>"

definition good_state :: sample_state where
  "good_state =
     \<lparr> reader = \<lparr> totalBytes = 33000, stallCount = 0, maxStall = 0, totalStall = 0,
                  firstReadTime = Some 0, firstReadDone = True,
                  stallThreshold = 200000000 \<rparr>,
       hasVideo = True, hasMetadata = False,
       packetCount = 11, videoCount = 11, audioCount = 0, keyframeCount = 2,
       firstPacketTime = Some 0, firstDTS = 0, lastDTS = 440000000, loopCodec = ''H264'' \<rparr>"

definition late_env :: attempt where
  "late_env =
     \<lparr> startTime = 0, reqStart = 0, http = DoResponse 200, responseHeaderTime = 1000000000,
       sampleStartTime = 1000000000,
       steps = [\<lparr> loopNow = 1000000000, pktRecvTime = 1000000000,
                  rawReads = [\<lparr> readStart = 1000000000, n_read = 1100,
                                read_elapsed = 5500000000 \<rparr>],
                  readPacket = Pkt \<lparr> pktType = H264, pktTime = 0, IsKeyFrame = True \<rparr> \<rparr>],
       endTime = 11000000000, commitTime = 11000000000 \<rparr>"

definition late_state :: sample_state where
  "late_state =
     \<lparr> reader = \<lparr> totalBytes = 1100, stallCount = 1, maxStall = 5500000000,
                  totalStall = 5500000000,
                  firstReadTime = Some 1000000000, firstReadDone = True,
                  stallThreshold = 200000000 \<rparr>,
       hasVideo = True, hasMetadata = False,
       packetCount = 1, videoCount = 1, audioCount = 0, keyframeCount = 1,
       firstPacketTime = Some 1000000000, firstDTS = 0, lastDTS = 0, loopCodec = ''H264'' \<rparr>"

definition single_env :: attempt where
  "single_env =
     \<lparr> startTime = 0, reqStart = 0, http = DoResponse 200, responseHeaderTime = 0,
       sampleStartTime = 0,
       steps = [video_step 0 3000 7000000000 True],
       endTime = 10000000000, commitTime = 10000000000 \<rparr>"

definition single_state :: sample_state where
  "single_state =
     \<lparr> reader = \<lparr> totalBytes = 3000, stallCount = 0, maxStall = 0, totalStall = 0,
                  firstReadTime = Some 0, firstReadDone = True,
                  stallThreshold = 200000000 \<rparr>,
       hasVideo = True, hasMetadata = False,
       packetCount = 1, videoCount = 1, audioCount = 0, keyframeCount = 1,
       firstPacketTime = Some 0, firstDTS = 7000000000, lastDTS = 7000000000,
       loopCodec = ''H264'' \<rparr>"

definition broken_env :: attempt where
  "broken_env =
     \<lparr> startTime = 0, reqStart = 0, http = DoResponse 200, responseHeaderTime = 0,
       sampleStartTime = 0,
       steps = [video_step 0 3000 0 True,
                \<lparr> loopNow = 0, pktRecvTime = 0,
                  rawReads = [\<lparr> readStart = 0, n_read = 0, read_elapsed = 0 \<rparr>],
                  readPacket = ReadFailure \<rparr>],
       endTime = 10000000000, commitTime = 10000000000 \<rparr>"

definition broken_state :: sample_state where
  "broken_state =
     \<lparr> reader = \<lparr> totalBytes = 3000, stallCount = 0, maxStall = 0, totalStall = 0,
                  firstReadTime = Some 0, firstReadDone = True,
                  stallThreshold = 200000000 \<rparr>,
       hasVideo = True, hasMetadata = False,
       packetCount = 1, videoCount = 1, audioCount = 0, keyframeCount = 1,
       firstPacketTime = Some 0, firstDTS = 0, lastDTS = 0, loopCodec = ''H264'' \<rparr>"

definition blind_env :: attempt where
  "blind_env =
     \<lparr> startTime = 0, reqStart = 0, http = DoResponse 200, responseHeaderTime = 0,
       sampleStartTime = 0,
       steps = [\<lparr> loopNow = 0, pktRecvTime = 0,
                  rawReads = [\<lparr> readStart = 0, n_read = 0, read_elapsed = 0 \<rparr>],
                  readPacket = ReadFailure \<rparr>],
       endTime = 10000000000, commitTime = 10000000000 \<rparr>"

definition blind_state :: sample_state where
  "blind_state =
     \<lparr> reader = \<lparr> totalBytes = 0, stallCount = 0, maxStall = 0, totalStall = 0,
                  firstReadTime = None, firstReadDone = False,
                  stallThreshold = 200000000 \<rparr>,
       hasVideo = False, hasMetadata = False,
       packetCount = 0, videoCount = 0, audioCount = 0, keyframeCount = 0,
       firstPacketTime = None, firstDTS = 0, lastDTS = 0, loopCodec = [] \<rparr>"

definition refused_env :: attempt where
  "refused_env =
     \<lparr> startTime = 0, reqStart = 0, http = DoError False, responseHeaderTime = 0,
       sampleStartTime = 0, steps = [], endTime = 0, commitTime = 0 \<rparr>"


text \<open>Environments of the retry wrapper: the first call is refused, or every call is.\<close>

definition flaky_world :: "nat \<Rightarrow> attempt" where
  "flaky_world k = (if k = 0 then refused_env else good_env)"

definition dead_world :: "nat \<Rightarrow> attempt" where
  "dead_world k = refused_env"


text \<open>A successful cycle followed by \<open>MarkFailed\<close>.\<close>

definition failed_state :: StreamChecker where
  "failed_state =
     run_ops (Some example_config) [OpCheck good_env 25000000000, OpMarkFailed 20000000000]
       new_checker"


text \<open>A snapshot with good quality, stable bit rate and a stall ratio of exactly one half.\<close>

definition boundary_metrics :: StreamMetrics where
  "boundary_metrics =
     (GetMetrics new_checker) \<lparr> Quality := ''good'', BitrateStability := ''stable'',
                                 ReadStallRatio := 1 / 2 \<rparr>"


text \<open>A sample of 20 s every 25 s.\<close>

definition tight_config :: ExporterConfig where
  "tight_config =
     \<lparr> CheckInterval = 25, SampleDuration = 20, MinKeyframes = 2, MaxConcurrent = 1000,
       MaxRetries = 3, StallThresholdMs = 200, ListenAddr = ''8080'', LogLevel = ''info'' \<rparr>"


text \<open>
  Lower-casing of ASCII letters, and a configuration in which the groups \<open>CDN\<close> and \<open>cdn\<close>
  of one project name the same URL.
\<close>

definition ascii_lower :: "string \<Rightarrow> string" where
  "ascii_lower s =
     map (\<lambda>c. if (65::nat) \<le> of_char c \<and> of_char c \<le> (90::nat)
              then char_of (of_char c + (32::nat)) else c) s"

definition first_entry :: StreamConfig where
  "first_entry = \<lparr> cfgURL = ''http://h/a.flv'', cfgID = ''s1'', Tag = [], Tags = Map.empty \<rparr>"

definition second_entry :: StreamConfig where
  "second_entry = \<lparr> cfgURL = ''http://h/a.flv'', cfgID = ''s2'', Tag = ''t'', Tags = Map.empty \<rparr>"

definition third_entry :: StreamConfig where
  "third_entry = \<lparr> cfgURL = ''http://h/b.flv'', cfgID = ''s3'', Tag = [], Tags = Map.empty \<rparr>"

definition dup_config :: Config where
  "dup_config =
     \<lparr> Exporter = Exporter example_config,
       Streams = [(''G01'', [(''CDN'', [first_entry]), (''cdn'', [second_entry]),
                            (''Source'', [third_entry])])] \<rparr>"


text \<open>
  A configuration in which two entries of the group \<open>cdn\<close> have the URL \<open>x::y\<close> and a
  later entry of the group \<open>cdn::x\<close> of the same project has the URL \<open>y\<close>.
\<close>

definition colon_first :: StreamConfig where
  "colon_first = \<lparr> cfgURL = ''x::y'', cfgID = ''s1'', Tag = [], Tags = Map.empty \<rparr>"

definition colon_second :: StreamConfig where
  "colon_second = \<lparr> cfgURL = ''x::y'', cfgID = ''s2'', Tag = [], Tags = Map.empty \<rparr>"

definition colon_other :: StreamConfig where
  "colon_other = \<lparr> cfgURL = ''y'', cfgID = ''s3'', Tag = [], Tags = Map.empty \<rparr>"

definition collide_config :: Config where
  "collide_config =
     \<lparr> Exporter = Exporter example_config,
       Streams = [(''G'', [(''cdn'', [colon_first, colon_second]),
                          (''cdn::x'', [colon_other])])] \<rparr>"


section \<open>What a commit writes\<close>

lemma set_rates_keeps [simp]:
  "bitrateHistory (set_rates st d sc) = bitrateHistory sc"
  "avgBitrate (set_rates st d sc) = avgBitrate sc"
  "playable (set_rates st d sc) = playable sc"
  "keyframes (set_rates st d sc) = keyframes sc"
  "videoPackets (set_rates st d sc) = videoPackets sc"
  "readThroughputBps (set_rates st d sc) = readThroughputBps sc"
  "readStallRatio (set_rates st d sc) = readStallRatio sc"
  by (simp_all add: set_rates_def Let_def)

lemma update_history_keeps [simp]:
  "framerate (update_history sc) = framerate sc"
  "currentBitrate (update_history sc) = currentBitrate sc"
  "playable (update_history sc) = playable sc"
  "keyframes (update_history sc) = keyframes sc"
  "videoPackets (update_history sc) = videoPackets sc"
  "readThroughputBps (update_history sc) = readThroughputBps sc"
  "readStallRatio (update_history sc) = readStallRatio sc"
  by (simp_all add: update_history_def Let_def)

lemma assess_quality_keeps [simp]:
  "framerate (assess_quality st sc) = framerate sc"
  "currentBitrate (assess_quality st sc) = currentBitrate sc"
  "bitrateHistory (assess_quality st sc) = bitrateHistory sc"
  "avgBitrate (assess_quality st sc) = avgBitrate sc"
  "keyframes (assess_quality st sc) = keyframes sc"
  "videoPackets (assess_quality st sc) = videoPackets sc"
  "readThroughputBps (assess_quality st sc) = readThroughputBps sc"
  "readStallRatio (assess_quality st sc) = readStallRatio sc"
  by (simp_all add: assess_quality_def Let_def)

lemma assess_quality_playable [simp]:
  "playable (assess_quality st sc) = (keyframeCount st \<ge> 2 \<and> videoCount st > 10)"
  by (simp add: assess_quality_def Let_def)

lemma assess_quality_quality:
  "quality (assess_quality st sc) =
     quality_rule (keyframeCount st \<ge> 2 \<and> videoCount st > 10) (framerate sc) (currentBitrate sc)"
  by (simp add: assess_quality_def quality_rule_def Let_def)

lemma codec_kept [simp]:
  "codec (set_rates st d sc) = codec sc"
  "codec (update_history sc) = codec sc"
  "codec (assess_quality st sc) = codec sc"
  by (simp_all add: set_rates_def update_history_def assess_quality_def Let_def)


lemma commit_playable:
  "playable (commit_sample env st sc) = (keyframeCount st \<ge> 2 \<and> videoCount st > 10)"
  by (simp add: commit_sample_def Let_def)

lemma commit_counts:
  "keyframes (commit_sample env st sc) = keyframeCount st"
  "videoPackets (commit_sample env st sc) = videoCount st"
  by (simp_all add: commit_sample_def Let_def)

lemma commit_quality:
  "quality (commit_sample env st sc) =
     quality_rule (playable (commit_sample env st sc)) (framerate (commit_sample env st sc))
       (currentBitrate (commit_sample env st sc))"
  by (simp add: commit_sample_def Let_def assess_quality_quality)

lemma commit_framerate:
  "framerate (commit_sample env st sc) =
     (if firstPacketTime st \<noteq> None \<and> lastDTS st > firstDTS st
         \<and> wrap64 (lastDTS st - firstDTS st) > 0
      then real_of_int (videoCount st) / (real_of_int (wrap64 (lastDTS st - firstDTS st)) / 1000000000)
      else framerate sc)"
  by (auto simp: commit_sample_def set_rates_def Let_def)

lemma commit_bitrate:
  "currentBitrate (commit_sample env st sc) =
     (if firstPacketTime st \<noteq> None \<and> lastDTS st > firstDTS st then
        (if wrap64 (lastDTS st - firstDTS st) > 0
         then (real_of_int (totalBytes (reader st)) * 8)
                / (real_of_int (wrap64 (lastDTS st - firstDTS st)) / 1000000000)
         else currentBitrate sc)
      else if Seconds (endTime env - startTime env) > 0
      then (real_of_int (totalBytes (reader st)) * 8) / Seconds (endTime env - startTime env)
      else currentBitrate sc)"
  by (auto simp: commit_sample_def set_rates_def Let_def)

lemma commit_throughput:
  "readThroughputBps (commit_sample env st sc) =
     (if Seconds (endTime env - startTime env) > 0
      then real_of_int (totalBytes (reader st) * 8) / Seconds (endTime env - startTime env)
      else 0)"
  by (simp add: commit_sample_def Let_def)

lemma commit_ratio:
  "readStallRatio (commit_sample env st sc) =
     (if Seconds (endTime env - startTime env) > 0
      then min 1 (Seconds (totalStall (reader st)) / Seconds (endTime env - startTime env))
      else 0)"
  by (simp add: commit_sample_def Let_def min_def)

lemma commit_codec: "codec (commit_sample env st sc) = loopCodec st"
  by (simp add: commit_sample_def Let_def)


section \<open>The sampling loop and the results of \<open>Check\<close>\<close>

lemma count_packet_hasVideo:
  "hasVideo (count_packet t pkt st) = (hasVideo st \<or> pktType pkt = H264)"
  by (cases "pktType pkt") (simp_all add: count_packet_def Let_def)

lemma count_packet_codec:
  "loopCodec (count_packet t pkt st) =
     (if pktType pkt = H264 \<and> loopCodec st = [] then ''H264'' else loopCodec st)"
  by (cases "pktType pkt") (simp_all add: count_packet_def Let_def)

lemma sample_loop_hasVideo_mono:
  "sample_loop sd mk ss xs st = (ok, st') \<Longrightarrow> hasVideo st \<Longrightarrow> hasVideo st'"
proof (induction xs arbitrary: st)
  case Nil
  then show ?case by simp
next
  case (Cons x xs)
  then show ?case
    by (auto simp: Let_def count_packet_hasVideo split: if_splits read_result.splits)
qed

lemma sample_loop_codec:
  "sample_loop sd mk ss xs st = (ok, st') \<Longrightarrow>
     loopCodec st' = loopCodec st \<or> (loopCodec st = [] \<and> loopCodec st' = ''H264'')"
proof (induction xs arbitrary: st)
  case Nil
  then show ?case by simp
next
  case (Cons x xs)
  show ?case
  proof (cases "readPacket x")
    case (Pkt pkt)
    let ?st1 = "st \<lparr> reader := foldl (\<lambda>r rr. Read_tr rr r) (reader st) (rawReads x) \<rparr>"
    show ?thesis
    proof (cases "sample_loop sd mk ss (x # xs) st = sample_loop sd mk ss xs (count_packet (pktRecvTime x) pkt ?st1)")
      case True
      with Cons.prems have "sample_loop sd mk ss xs (count_packet (pktRecvTime x) pkt ?st1) = (ok, st')"
        by simp
      from Cons.IH [OF this] show ?thesis
        by (auto simp: count_packet_codec split: if_splits)
    next
      case False
      with Pkt Cons.prems show ?thesis
        by (auto simp: Let_def split: if_splits)
    qed
  next
    case ReadEOF
    with Cons.prems show ?thesis by (auto simp: Let_def split: if_splits)
  next
    case ReadFailure
    with Cons.prems show ?thesis by (auto simp: Let_def split: if_splits)
  qed
qed

lemma sample_loop_no_video_codec:
  "sample_loop sd mk ss xs st = (ok, st') \<Longrightarrow> \<not> hasVideo st' \<Longrightarrow> loopCodec st' = loopCodec st"
proof (induction xs arbitrary: st)
  case Nil
  then show ?case by simp
next
  case (Cons x xs)
  show ?case
  proof (cases "readPacket x")
    case (Pkt pkt)
    let ?st1 = "st \<lparr> reader := foldl (\<lambda>r rr. Read_tr rr r) (reader st) (rawReads x) \<rparr>"
    show ?thesis
    proof (cases "sample_loop sd mk ss (x # xs) st = sample_loop sd mk ss xs (count_packet (pktRecvTime x) pkt ?st1)")
      case True
      with Cons.prems have run: "sample_loop sd mk ss xs (count_packet (pktRecvTime x) pkt ?st1) = (ok, st')"
        by simp
      have "pktType pkt \<noteq> H264"
      proof
        assume "pktType pkt = H264"
        then have "hasVideo (count_packet (pktRecvTime x) pkt ?st1)"
          by (simp add: count_packet_hasVideo)
        from sample_loop_hasVideo_mono [OF run this] Cons.prems(2) show False by simp
      qed
      with Cons.IH [OF run Cons.prems(2)] show ?thesis
        by (simp add: count_packet_codec)
    next
      case False
      with Pkt Cons.prems show ?thesis
        by (auto simp: Let_def split: if_splits)
    qed
  next
    case ReadEOF
    with Cons.prems show ?thesis by (auto simp: Let_def split: if_splits)
  next
    case ReadFailure
    with Cons.prems show ?thesis by (auto simp: Let_def split: if_splits)
  qed
qed

lemma sample_loop_video_codec:
  "sample_loop sd mk ss xs st = (ok, st') \<Longrightarrow> (hasVideo st \<longrightarrow> loopCodec st \<noteq> [])
     \<Longrightarrow> hasVideo st' \<Longrightarrow> loopCodec st' \<noteq> []"
proof (induction xs arbitrary: st)
  case Nil
  then show ?case by simp
next
  case (Cons x xs)
  show ?case
  proof (cases "readPacket x")
    case (Pkt pkt)
    let ?st1 = "st \<lparr> reader := foldl (\<lambda>r rr. Read_tr rr r) (reader st) (rawReads x) \<rparr>"
    let ?st2 = "count_packet (pktRecvTime x) pkt ?st1"
    show ?thesis
    proof (cases "sample_loop sd mk ss (x # xs) st = sample_loop sd mk ss xs ?st2")
      case True
      with Cons.prems have run: "sample_loop sd mk ss xs ?st2 = (ok, st')"
        by simp
      have "hasVideo ?st2 \<longrightarrow> loopCodec ?st2 \<noteq> []"
        using Cons.prems(2) by (simp add: count_packet_hasVideo count_packet_codec)
      from Cons.IH [OF run this Cons.prems(3)] show ?thesis .
    next
      case False
      with Pkt Cons.prems show ?thesis
        by (auto simp: Let_def split: if_splits)
    qed
  next
    case ReadEOF
    with Cons.prems show ?thesis by (auto simp: Let_def split: if_splits)
  next
    case ReadFailure
    with Cons.prems show ?thesis by (auto simp: Let_def split: if_splits)
  qed
qed

lemma init_sample_codec [simp]: "loopCodec (init_sample th c) = c"
  by (simp add: init_sample_def)

lemma init_sample_hasVideo [simp]: "hasVideo (init_sample th c) = False"
  by (simp add: init_sample_def)

lemma loop_end_codec:
  "loopCodec (snd (loop_end gc env sc)) =
     (if codec sc = [] \<and> hasVideo (snd (loop_end gc env sc)) then ''H264'' else codec sc)"
proof -
  obtain ok st where run: "loop_end gc env sc = (ok, st)"
    by (cases "loop_end gc env sc") auto
  note loop = run [unfolded loop_end_def]
  show ?thesis
  proof (cases "hasVideo st")
    case False
    from sample_loop_no_video_codec [OF loop False] False show ?thesis
      by (simp add: run)
  next
    case True
    from sample_loop_video_codec [OF loop _ True] have ne: "loopCodec st \<noteq> []"
      by simp
    from sample_loop_codec [OF loop] ne True show ?thesis
      by (auto simp: run)
  qed
qed


lemma Check_shape:
  obtains (returned) e where "Check gc env t sc = (Some e, sc)" and "e \<noteq> ReadPacketFailed"
  | (sampled) ok st where
      "sample_loop
         (secs (case gc of Some c \<Rightarrow> if SampleDuration (Exporter c) > 0
                                     then SampleDuration (Exporter c) else 10 | None \<Rightarrow> 10))
         (case gc of Some c \<Rightarrow> if MinKeyframes (Exporter c) > 0
                               then MinKeyframes (Exporter c) else 2 | None \<Rightarrow> 2)
         (sampleStartTime env) (steps env)
         (init_sample (getStallThreshold gc) (codec sc)) = (ok, st)"
      and "Check gc env t sc =
        (if \<not> ok then (Some ReadPacketFailed, sc \<lparr> codec := loopCodec st \<rparr>)
         else if \<not> hasVideo st then (Some NoVideoStream, sc \<lparr> codec := loopCodec st \<rparr>)
         else (None, commit_sample env st sc))"
proof (cases "http env")
  case NewRequestError
  then have "Check gc env t sc = (Some CreateRequestFailed, sc)" by (simp add: Check_def)
  then show ?thesis by (rule returned) simp
next
  case (DoError d)
  then have "Check gc env t sc = (Some (if d then RequestTimeout else ConnectFailed), sc)"
    by (simp add: Check_def)
  then show ?thesis by (rule returned) simp
next
  case (DoResponse status)
  show ?thesis
  proof (cases "status = 200")
    case False
    with DoResponse have "Check gc env t sc = (Some (HTTPStatus status), sc)"
      by (simp add: Check_def)
    then show ?thesis by (rule returned) simp
  next
    case True
    define sd where "sd = secs (case gc of Some c \<Rightarrow> if SampleDuration (Exporter c) > 0
                                then SampleDuration (Exporter c) else 10 | None \<Rightarrow> 10)"
    define mk where "mk = (case gc of Some c \<Rightarrow> if MinKeyframes (Exporter c) > 0
                                then MinKeyframes (Exporter c) else 2 | None \<Rightarrow> 2)"
    obtain ok st where run: "sample_loop sd mk (sampleStartTime env) (steps env)
        (init_sample (getStallThreshold gc) (codec sc)) = (ok, st)"
      by (cases "sample_loop sd mk (sampleStartTime env) (steps env)
        (init_sample (getStallThreshold gc) (codec sc))") auto
    have chk: "Check gc env t sc =
        (if \<not> ok then (Some ReadPacketFailed, sc \<lparr> codec := loopCodec st \<rparr>)
         else if \<not> hasVideo st then (Some NoVideoStream, sc \<lparr> codec := loopCodec st \<rparr>)
         else (None, commit_sample env st sc))"
      using DoResponse True run by (simp add: Check_def sd_def mk_def)
    from run chk show ?thesis
      unfolding sd_def mk_def by (rule sampled)
  qed
qed

lemma Check_success:
  assumes "fst (Check gc env t sc) = None"
  shows "\<exists>st. hasVideo st \<and> snd (Check gc env t sc) = commit_sample env st sc"
proof (cases gc env t sc rule: Check_shape)
  case (returned e)
  with assms show ?thesis by simp
next
  case (sampled ok st)
  with assms have "ok \<and> hasVideo st" by (auto split: if_splits)
  with sampled(2) show ?thesis by auto
qed

lemma Check_failure_fields:
  assumes "fst (Check gc env t sc) = Some e"
  shows "playable (snd (Check gc env t sc)) = playable sc"
    and "keyframes (snd (Check gc env t sc)) = keyframes sc"
    and "videoPackets (snd (Check gc env t sc)) = videoPackets sc"
    and "bitrateHistory (snd (Check gc env t sc)) = bitrateHistory sc"
    and "avgBitrate (snd (Check gc env t sc)) = avgBitrate sc"
proof -
  have "\<exists>c. snd (Check gc env t sc) = sc \<lparr> codec := c \<rparr>"
  proof (cases gc env t sc rule: Check_shape)
    case (returned e')
    then have "snd (Check gc env t sc) = sc \<lparr> codec := codec sc \<rparr>" by simp
    then show ?thesis ..
  next
    case (sampled ok st)
    with assms have "snd (Check gc env t sc) = sc \<lparr> codec := loopCodec st \<rparr>"
      by (auto split: if_splits)
    then show ?thesis ..
  qed
  then obtain c where c: "snd (Check gc env t sc) = sc \<lparr> codec := c \<rparr>" ..
  show "playable (snd (Check gc env t sc)) = playable sc"
    and "keyframes (snd (Check gc env t sc)) = keyframes sc"
    and "videoPackets (snd (Check gc env t sc)) = videoPackets sc"
    and "bitrateHistory (snd (Check gc env t sc)) = bitrateHistory sc"
    and "avgBitrate (snd (Check gc env t sc)) = avgBitrate sc"
    by (simp_all add: c)
qed

lemma Check_ok:
  assumes "http env = DoResponse 200"
    and "sample_loop (secs (case gc of Some c \<Rightarrow> if SampleDuration (Exporter c) > 0
                                then SampleDuration (Exporter c) else 10 | None \<Rightarrow> 10))
           (case gc of Some c \<Rightarrow> if MinKeyframes (Exporter c) > 0
                                then MinKeyframes (Exporter c) else 2 | None \<Rightarrow> 2)
           (sampleStartTime env) (steps env)
           (init_sample (getStallThreshold gc) (codec sc)) = (True, st)"
    and "hasVideo st"
  shows "Check gc env t sc = (None, commit_sample env st sc)"
  using assms by (simp add: Check_def)

lemma Check_read_failed:
  assumes "http env = DoResponse 200"
    and "sample_loop (secs (case gc of Some c \<Rightarrow> if SampleDuration (Exporter c) > 0
                                then SampleDuration (Exporter c) else 10 | None \<Rightarrow> 10))
           (case gc of Some c \<Rightarrow> if MinKeyframes (Exporter c) > 0
                                then MinKeyframes (Exporter c) else 2 | None \<Rightarrow> 2)
           (sampleStartTime env) (steps env)
           (init_sample (getStallThreshold gc) (codec sc)) = (False, st)"
  shows "Check gc env t sc = (Some ReadPacketFailed, sc \<lparr> codec := loopCodec st \<rparr>)"
  using assms by (simp add: Check_def)

lemma Check_read_failed_fst:
  assumes "http env = DoResponse 200" and "fst (loop_end gc env sc) = False"
  shows "fst (Check gc env t sc) = Some ReadPacketFailed"
proof -
  obtain st where "loop_end gc env sc = (False, st)"
    using assms(2) by (cases "loop_end gc env sc") auto
  then show ?thesis
    using Check_read_failed [OF assms(1), of gc sc st t] by (simp add: loop_end_def)
qed


section \<open>Invariants along a history\<close>

lemma MarkFailed_fields [simp]:
  "playable (MarkFailed now sc) = False"
  "keyframes (MarkFailed now sc) = 0"
  "videoPackets (MarkFailed now sc) = 0"
  "avgBitrate (MarkFailed now sc) = 0"
  "bitrateHistory (MarkFailed now sc) = bitrateHistory sc"
  by (simp_all add: MarkFailed_def)

lemma NewStreamChecker_fields [simp]:
  "playable (NewStreamChecker nm i u p l lbls) = False"
  "keyframes (NewStreamChecker nm i u p l lbls) = 0"
  "videoPackets (NewStreamChecker nm i u p l lbls) = 0"
  "avgBitrate (NewStreamChecker nm i u p l lbls) = 0"
  "bitrateHistory (NewStreamChecker nm i u p l lbls) = []"
  by (simp_all add: NewStreamChecker_def)


lemma Check_playable_consistent:
  assumes "playable_consistent sc"
  shows "playable_consistent (snd (Check gc env t sc))"
proof (cases "fst (Check gc env t sc)")
  case None
  from Check_success [OF this] show ?thesis
    by (auto simp: playable_consistent_def commit_playable commit_counts)
next
  case (Some e)
  from Check_failure_fields [OF this] assms show ?thesis
    by (simp add: playable_consistent_def)
qed

lemma apply_op_playable_consistent:
  "playable_consistent sc \<Longrightarrow> playable_consistent (apply_op gc sc x)"
  by (cases x) (simp_all add: Check_playable_consistent, simp add: playable_consistent_def)

lemma run_ops_playable_consistent:
  "playable_consistent sc \<Longrightarrow> playable_consistent (run_ops gc ops sc)"
  unfolding run_ops_def
  by (induction ops arbitrary: sc) (simp_all add: apply_op_playable_consistent)


lemma update_history_history:
  assumes "length (bitrateHistory sc) \<le> 10"
  shows "bitrateHistory (update_history sc) =
     (if currentBitrate sc > 0
      then drop (length (bitrateHistory sc) - 9) (bitrateHistory sc @ [currentBitrate sc])
      else bitrateHistory sc)"
proof (cases "length (bitrateHistory sc) = 10")
  case True
  then show ?thesis by (simp add: update_history_def Let_def)
next
  case False
  with assms have "length (bitrateHistory sc) \<le> 9" by simp
  then show ?thesis by (simp add: update_history_def Let_def)
qed

lemma update_history_avg:
  "length (bitrateHistory sc) \<le> 10 \<Longrightarrow>
   avgBitrate (update_history sc) =
     (if currentBitrate sc > 0 then mean (bitrateHistory (update_history sc))
      else avgBitrate sc)"
  by (auto simp: update_history_def Let_def mean_def)

lemma update_history_length:
  "length (bitrateHistory sc) \<le> 10 \<Longrightarrow> length (bitrateHistory (update_history sc)) \<le> 10"
  by (auto simp: update_history_def Let_def)

lemma update_history_nonempty:
  "currentBitrate sc > 0 \<Longrightarrow> bitrateHistory (update_history sc) \<noteq> []"
  by (auto simp: update_history_def Let_def)

lemma update_history_unchanged:
  "\<not> currentBitrate sc > 0 \<Longrightarrow> update_history sc = sc"
  by (simp add: update_history_def)

lemma commit_decomp:
  "\<exists>sc2. commit_sample env st sc = assess_quality st (update_history sc2)
     \<and> bitrateHistory sc2 = bitrateHistory sc \<and> avgBitrate sc2 = avgBitrate sc"
proof -
  have "\<exists>sc1. commit_sample env st sc =
           assess_quality st (update_history (set_rates st (endTime env - startTime env) sc1))
         \<and> bitrateHistory sc1 = bitrateHistory sc \<and> avgBitrate sc1 = avgBitrate sc"
    unfolding commit_sample_def Let_def
    by (rule exI, intro conjI, rule refl) simp_all
  then obtain sc1 where "commit_sample env st sc =
           assess_quality st (update_history (set_rates st (endTime env - startTime env) sc1))"
         "bitrateHistory sc1 = bitrateHistory sc" "avgBitrate sc1 = avgBitrate sc"
    by blast
  then show ?thesis
    by (intro exI [where x = "set_rates st (endTime env - startTime env) sc1"]) simp
qed

lemma commit_history_consistent:
  assumes "history_consistent sc"
  shows "history_consistent (commit_sample env st sc)"
proof -
  obtain sc2 where d: "commit_sample env st sc = assess_quality st (update_history sc2)"
    "bitrateHistory sc2 = bitrateHistory sc" "avgBitrate sc2 = avgBitrate sc"
    using commit_decomp by blast
  from assms d have len: "length (bitrateHistory sc2) \<le> 10"
    by (simp add: history_consistent_def)
  show ?thesis
  proof (cases "currentBitrate sc2 > 0")
    case True
    with len show ?thesis
      by (simp add: history_consistent_def d(1) update_history_length update_history_avg
          update_history_nonempty)
  next
    case False
    with assms d show ?thesis
      by (simp add: history_consistent_def update_history_unchanged)
  qed
qed

lemma commit_history_step:
  assumes "length (bitrateHistory sc) \<le> 10" and "currentBitrate (commit_sample env st sc) > 0"
  shows "bitrateHistory (commit_sample env st sc) =
           drop (length (bitrateHistory sc) - 9)
             (bitrateHistory sc @ [currentBitrate (commit_sample env st sc)])
         \<and> bitrateHistory (commit_sample env st sc) \<noteq> []
         \<and> avgBitrate (commit_sample env st sc) = mean (bitrateHistory (commit_sample env st sc))"
proof -
  obtain sc2 where d: "commit_sample env st sc = assess_quality st (update_history sc2)"
    "bitrateHistory sc2 = bitrateHistory sc" "avgBitrate sc2 = avgBitrate sc"
    using commit_decomp by blast
  from assms(2) have pos: "currentBitrate sc2 > 0" by (simp add: d(1))
  from assms(1) d(2) have len: "length (bitrateHistory sc2) \<le> 10" by simp
  show ?thesis
    using pos by (simp add: d(1) update_history_history [OF len] update_history_avg [OF len]
        update_history_nonempty d(2))
qed

lemma Check_history_consistent:
  assumes "history_consistent sc"
  shows "history_consistent (snd (Check gc env t sc))"
proof (cases "fst (Check gc env t sc)")
  case None
  from Check_success [OF this] assms show ?thesis
    by (auto simp: commit_history_consistent)
next
  case (Some e)
  from Check_failure_fields [OF this] assms show ?thesis
    by (simp add: history_consistent_def)
qed

lemma apply_op_history_consistent:
  "history_consistent sc \<Longrightarrow> history_consistent (apply_op gc sc x)"
  by (cases x) (simp_all add: Check_history_consistent, simp add: history_consistent_def)

lemma run_ops_history_consistent:
  "history_consistent sc \<Longrightarrow> history_consistent (run_ops gc ops sc)"
  unfolding run_ops_def
  by (induction ops arbitrary: sc) (simp_all add: apply_op_history_consistent)


section \<open>The retry loop\<close>

lemma retry_loop_succeeds:
  assumes "a \<le> j" and "int j \<le> M"
    and "\<forall>k. a \<le> k \<and> k < j \<longrightarrow> result_of gc T w sc k \<noteq> None"
    and "result_of gc T w sc j = None"
  shows "retry_loop gc M T w ft (int a) le (state_before gc T w sc a) evs =
           (None, state_before gc T w sc (Suc j),
            evs @ events_from (result_of gc T w sc) a (Suc j - a))"
  using assms
proof (induction "j - a" arbitrary: a le evs)
  case 0
  then have aj: "a = j" by simp
  have le: "int j \<le> M" by fact
  have res: "fst (Check gc (w j) T (state_before gc T w sc j)) = None"
    using "0.prems"(4) by (simp add: result_of_def)
  show ?case
    by (subst retry_loop.simps) (simp add: aj le res Let_def result_of_def)
next
  case (Suc n)
  then have lt: "a < j" by simp
  with Suc.prems have fails: "result_of gc T w sc a \<noteq> None" by simp
  then obtain e where e: "fst (Check gc (w a) T (state_before gc T w sc a)) = Some e"
    by (auto simp: result_of_def)
  have le: "int a \<le> M" using lt Suc.prems(2) by simp
  have n: "n = j - Suc a" using Suc.hyps(2) by simp
  have ih: "retry_loop gc M T w ft (int (Suc a)) le' (state_before gc T w sc (Suc a)) evs' =
           (None, state_before gc T w sc (Suc j),
            evs' @ events_from (result_of gc T w sc) (Suc a) (Suc j - Suc a))" for le' evs'
    using Suc.hyps(1) [OF n, of le' evs'] lt Suc.prems by simp
  have sj: "Suc j - a = Suc (Suc j - Suc a)" using lt by simp
  have ia: "int a + 1 = int (Suc a)" by simp
  show ?case
    apply (subst retry_loop.simps)
    apply (simp only: le if_True Let_def e option.case fst_conv snd_conv nat_int ia)
    apply (simp only: state_before.simps [symmetric])
    apply (simp only: ih sj events_from.simps)
    apply (simp add: result_of_def e)
    done
qed

lemma retry_loop_exhausted:
  assumes "int a \<le> M + 1"
    and "\<forall>k. a \<le> k \<and> int k \<le> M \<longrightarrow> result_of gc T w sc k \<noteq> None"
  shows "retry_loop gc M T w ft (int a) le (state_before gc T w sc a) evs =
           (if int a = M + 1 then le else result_of gc T w sc (nat M),
            MarkFailed ft (state_before gc T w sc (nat (M + 1))),
            evs @ events_from (result_of gc T w sc) a (nat (M + 1) - a) @ [MarkedFailed])"
  using assms
proof (induction "nat (M + 1) - a" arbitrary: a le evs)
  case 0
  then have aM: "int a = M + 1" by simp
  then have na: "nat (M + 1) = a" by simp
  have gt: "\<not> int a \<le> M" using aM by simp
  show ?case
    by (subst retry_loop.simps) (simp add: gt aM na)
next
  case (Suc n)
  then have le: "int a \<le> M" by simp
  with Suc.prems have fails: "result_of gc T w sc a \<noteq> None" by simp
  then obtain e where e: "fst (Check gc (w a) T (state_before gc T w sc a)) = Some e"
    by (auto simp: result_of_def)
  have n: "n = nat (M + 1) - Suc a" using Suc.hyps(2) by simp
  have le1: "int (Suc a) \<le> M + 1" using le by simp
  have ih: "retry_loop gc M T w ft (int (Suc a)) le' (state_before gc T w sc (Suc a)) evs' =
           (if int (Suc a) = M + 1 then le' else result_of gc T w sc (nat M),
            MarkFailed ft (state_before gc T w sc (nat (M + 1))),
            evs' @ events_from (result_of gc T w sc) (Suc a) (nat (M + 1) - Suc a) @ [MarkedFailed])"
    for le' evs'
    using Suc.hyps(1) [OF n le1, of le' evs'] Suc.prems(2) by simp
  have sj: "nat (M + 1) - a = Suc (nat (M + 1) - Suc a)" using le by simp
  have ia: "int a + 1 = int (Suc a)" by simp
  have ne: "int a \<noteq> M + 1" using le by simp
  have last: "int (Suc a) = M + 1 \<Longrightarrow> Some e = result_of gc T w sc (nat M)"
  proof -
    assume "int (Suc a) = M + 1"
    then have "nat M = a" by simp
    then show ?thesis by (simp add: result_of_def e)
  qed
  show ?case
    apply (subst retry_loop.simps)
    apply (simp only: le if_True Let_def e option.case fst_conv snd_conv nat_int ia)
    apply (simp only: state_before.simps [symmetric])
    apply (simp only: ih sj events_from.simps)
    using last apply (simp add: result_of_def e ne)
    done
qed

lemma retryDelay_pow:
  assumes "k \<le> 33"
  shows "retryDelay (int k) = 2 ^ k * Second"
proof -
  have "(2::int) ^ k \<le> 2 ^ 33" using assms by (intro power_increasing) simp_all
  then have b: "(2::int) ^ k \<le> 8589934592" by simp
  have p: "(0::int) < 2 ^ k" by simp
  have w1: "wrap64 (2 ^ k) = 2 ^ k"
    using b p by (simp add: wrap64_def)
  have "2 ^ k * Second \<le> 8589934592 * Second" using b by (simp add: Second_def)
  then have w2: "wrap64 (2 ^ k * Second) = 2 ^ k * Second"
    using p by (simp add: wrap64_def Second_def)
  show ?thesis by (simp add: retryDelay_def w1 w2)
qed

lemma events_from_checks: "length (filter is_check (events_from r a n)) = n"
  by (induction n arbitrary: a) simp_all

lemma checkWithRetry_succeeds:
  assumes "\<forall>k<j. result_of gc T w sc k \<noteq> None" and "result_of gc T w sc j = None"
    and "int j \<le> M"
  shows "retry_loop gc M T w ft 0 None sc [] =
           (None, state_before gc T w sc (Suc j), events_from (result_of gc T w sc) 0 (Suc j))"
  using retry_loop_succeeds [of 0 j M gc T w sc ft None "[]"] assms by simp

lemma checkWithRetry_exhausted:
  assumes "\<forall>k. int k \<le> M \<longrightarrow> result_of gc T w sc k \<noteq> None"
  shows "retry_loop gc M T w ft 0 None sc [] =
           (if M < 0 then None else result_of gc T w sc (nat M),
            MarkFailed ft (state_before gc T w sc (nat (M + 1))),
            events_from (result_of gc T w sc) 0 (nat (M + 1)) @ [MarkedFailed])"
proof (cases "0 \<le> M + 1")
  case True
  from retry_loop_exhausted [of 0 M gc T w sc ft None "[]"] True assms
  have "retry_loop gc M T w ft 0 None sc [] =
           (if 0 = M + 1 then None else result_of gc T w sc (nat M),
            MarkFailed ft (state_before gc T w sc (nat (M + 1))),
            events_from (result_of gc T w sc) 0 (nat (M + 1)) @ [MarkedFailed])"
    by simp
  moreover have "(0 = M + 1) = (M < 0)" using True by auto
  ultimately show ?thesis by simp
next
  case False
  then have "\<not> 0 \<le> M" "M < 0" "nat (M + 1) = 0" by simp_all
  then show ?thesis
    by (subst retry_loop.simps) simp
qed


section \<open>Registration\<close>

lemma foldl_concat_list: "foldl f s (concat xss) = foldl (foldl f) s xss"
  by (induction xss arbitrary: s) simp_all

lemma add_group_flat:
  "add_group toLower nm p s g = foldl (add_flat nm) s (map (\<lambda>e. (p, toLower (fst g), e)) (snd g))"
  by (simp add: add_group_def foldl_map add_flat_def)

lemma add_project_flat:
  "add_project toLower nm s p =
     foldl (add_flat nm) s (concat (map (\<lambda>g. map (\<lambda>e. (fst p, toLower (fst g), e)) (snd g)) (snd p)))"
proof -
  have "foldl (add_group toLower nm q) s gs =
        foldl (add_flat nm) s (concat (map (\<lambda>g. map (\<lambda>e. (q, toLower (fst g), e)) (snd g)) gs))"
    for q gs s
    by (induction gs arbitrary: s) (simp_all add: add_group_flat)
  then show ?thesis by (simp add: add_project_def)
qed

lemma register_streams_flat:
  "register_streams toLower nm cfg = foldl (add_flat nm) (NewScheduler cfg) (entries toLower cfg)"
proof -
  have "foldl (add_project toLower nm) s ps =
        foldl (add_flat nm) s
          (concat (map (\<lambda>p. concat (map (\<lambda>g. map (\<lambda>e. (fst p, toLower (fst g), e)) (snd g)) (snd p))) ps))"
    for ps s
    by (induction ps arbitrary: s) (simp_all add: add_project_flat)
  then show ?thesis by (simp add: register_streams_def entries_def)
qed

lemma add_flat_checkers:
  "checkers (add_flat nm s x) = (checkers s)(entry_key x \<mapsto> entry_checker nm x)"
  by (simp add: add_flat_def add_entry_def AddStream_def entry_key_def entry_checker_def)

lemma foldl_add_flat_other:
  "\<forall>z\<in>set zs. entry_key z \<noteq> k \<Longrightarrow> checkers (foldl (add_flat nm) s zs) k = checkers s k"
  by (induction zs arbitrary: s) (auto simp: add_flat_checkers)

lemma entry_checker_triple:
  "project (entry_checker nm x) = fst x"
  "line (entry_checker nm x) = fst (snd x)"
  "url (entry_checker nm x) = cfgURL (snd (snd x))"
  "sid (entry_checker nm x) = cfgID (snd (snd x))"
  "labels (entry_checker nm x) = stream_tags (fst x) (fst (snd x)) (snd (snd x))"
  by (simp_all add: entry_checker_def NewStreamChecker_def)

lemma add_flat_keyed: "keyed_by_triple s \<Longrightarrow> keyed_by_triple (add_flat nm s x)"
  by (auto simp: keyed_by_triple_def add_flat_checkers entry_checker_triple entry_key_def)

lemma foldl_add_flat_keyed:
  "keyed_by_triple s \<Longrightarrow> keyed_by_triple (foldl (add_flat nm) s xs)"
  by (induction xs arbitrary: s) (simp_all add: add_flat_keyed)

lemma register_streams_keyed: "keyed_by_triple (register_streams toLower nm cfg)"
  unfolding register_streams_flat
  by (rule foldl_add_flat_keyed) (simp add: keyed_by_triple_def NewScheduler_def)


section \<open>The sample inputs evaluated\<close>

lemma example_params:
  "secs (case Some example_config of Some c \<Rightarrow> if SampleDuration (Exporter c) > 0
                                then SampleDuration (Exporter c) else 10 | None \<Rightarrow> 10) = 10000000000"
  "(case Some example_config of Some c \<Rightarrow> if MinKeyframes (Exporter c) > 0
                                then MinKeyframes (Exporter c) else 2 | None \<Rightarrow> 2) = 2"
  "getStallThreshold (Some example_config) = 200000000"
  by (simp_all add: example_config_def secs_def millis_def wrap64_def Second_def Millisecond_def
      getStallThreshold_def)

lemma good_loop_new:
  "sample_loop 10000000000 2 0 (steps good_env) (init_sample 200000000 []) = (True, good_state)"
  by code_simp

lemma good_loop_again:
  "sample_loop 10000000000 2 0 (steps good_env) (init_sample 200000000 ''H264'') = (True, good_state)"
  by code_simp

lemma late_loop:
  "sample_loop 10000000000 2 1000000000 (steps late_env) (init_sample 200000000 []) = (True, late_state)"
  by code_simp

lemma single_loop:
  "sample_loop 10000000000 2 0 (steps single_env) (init_sample 200000000 ''H264'') = (True, single_state)"
  by code_simp

lemma broken_loop:
  "sample_loop 10000000000 2 0 (steps broken_env) (init_sample 200000000 []) = (False, broken_state)"
  by code_simp

lemma blind_loop:
  "sample_loop 10000000000 2 0 (steps blind_env) (init_sample 200000000 []) = (False, blind_state)"
  by code_simp

lemma new_checker_codec: "codec new_checker = []"
  by (simp add: new_checker_def NewStreamChecker_def)

lemma loop_end_broken:
  "loop_end (Some example_config) broken_env new_checker = (False, broken_state)"
proof -
  have s0: "sampleStartTime broken_env = 0" by (simp add: broken_env_def)
  show ?thesis
    unfolding loop_end_def example_params s0 new_checker_codec by (rule broken_loop)
qed

lemma loop_end_blind:
  "loop_end (Some example_config) blind_env new_checker = (False, blind_state)"
proof -
  have s0: "sampleStartTime blind_env = 0" by (simp add: blind_env_def)
  show ?thesis
    unfolding loop_end_def example_params s0 new_checker_codec by (rule blind_loop)
qed


lemma Check_good:
  assumes "codec sc = [] \<or> codec sc = ''H264''"
  shows "Check (Some example_config) good_env t sc = (None, commit_sample good_env good_state sc)"
proof (rule Check_ok)
  show "http good_env = DoResponse 200" by (simp add: good_env_def)
  show "hasVideo good_state" by (simp add: good_state_def)
  have s0: "sampleStartTime good_env = 0" by (simp add: good_env_def)
  from assms show "sample_loop (secs (case Some example_config of Some c \<Rightarrow> if SampleDuration (Exporter c) > 0
                                then SampleDuration (Exporter c) else 10 | None \<Rightarrow> 10))
           (case Some example_config of Some c \<Rightarrow> if MinKeyframes (Exporter c) > 0
                                then MinKeyframes (Exporter c) else 2 | None \<Rightarrow> 2)
           (sampleStartTime good_env) (steps good_env)
           (init_sample (getStallThreshold (Some example_config)) (codec sc)) = (True, good_state)"
    unfolding example_params s0 using good_loop_new good_loop_again by auto
qed

lemma good_values:
  "framerate (commit_sample good_env good_state sc) = 25"
  "currentBitrate (commit_sample good_env good_state sc) = 600000"
  "playable (commit_sample good_env good_state sc) = True"
  "keyframes (commit_sample good_env good_state sc) = 2"
  "videoPackets (commit_sample good_env good_state sc) = 11"
  by (simp_all add: commit_framerate commit_bitrate commit_playable commit_counts good_state_def
      wrap64_def)

lemma Check_late:
  "Check (Some example_config) late_env t new_checker = (None, commit_sample late_env late_state new_checker)"
proof (rule Check_ok)
  show "http late_env = DoResponse 200" by (simp add: late_env_def)
  show "hasVideo late_state" by (simp add: late_state_def)
  have s0: "sampleStartTime late_env = 1000000000" by (simp add: late_env_def)
  show "sample_loop (secs (case Some example_config of Some c \<Rightarrow> if SampleDuration (Exporter c) > 0
                                then SampleDuration (Exporter c) else 10 | None \<Rightarrow> 10))
           (case Some example_config of Some c \<Rightarrow> if MinKeyframes (Exporter c) > 0
                                then MinKeyframes (Exporter c) else 2 | None \<Rightarrow> 2)
           (sampleStartTime late_env) (steps late_env)
           (init_sample (getStallThreshold (Some example_config)) (codec new_checker)) = (True, late_state)"
    unfolding example_params s0 new_checker_codec by (rule late_loop)
qed

lemma Check_single:
  assumes "codec sc = ''H264''"
  shows "Check (Some example_config) single_env t sc = (None, commit_sample single_env single_state sc)"
proof (rule Check_ok)
  show "http single_env = DoResponse 200" by (simp add: single_env_def)
  show "hasVideo single_state" by (simp add: single_state_def)
  have s0: "sampleStartTime single_env = 0" by (simp add: single_env_def)
  show "sample_loop (secs (case Some example_config of Some c \<Rightarrow> if SampleDuration (Exporter c) > 0
                                then SampleDuration (Exporter c) else 10 | None \<Rightarrow> 10))
           (case Some example_config of Some c \<Rightarrow> if MinKeyframes (Exporter c) > 0
                                then MinKeyframes (Exporter c) else 2 | None \<Rightarrow> 2)
           (sampleStartTime single_env) (steps single_env)
           (init_sample (getStallThreshold (Some example_config)) (codec sc)) = (True, single_state)"
    unfolding example_params s0 assms by (rule single_loop)
qed

lemma Check_broken:
  "Check (Some example_config) broken_env t new_checker =
     (Some ReadPacketFailed, new_checker \<lparr> codec := ''H264'' \<rparr>)"
proof -
  have h: "http broken_env = DoResponse 200" by (simp add: broken_env_def)
  have s0: "sampleStartTime broken_env = 0" by (simp add: broken_env_def)
  have c: "loopCodec broken_state = ''H264''" by (simp add: broken_state_def)
  have "sample_loop (secs (case Some example_config of Some c \<Rightarrow> if SampleDuration (Exporter c) > 0
                                then SampleDuration (Exporter c) else 10 | None \<Rightarrow> 10))
           (case Some example_config of Some c \<Rightarrow> if MinKeyframes (Exporter c) > 0
                                then MinKeyframes (Exporter c) else 2 | None \<Rightarrow> 2)
           (sampleStartTime broken_env) (steps broken_env)
           (init_sample (getStallThreshold (Some example_config)) (codec new_checker)) = (False, broken_state)"
    unfolding example_params s0 new_checker_codec by (rule broken_loop)
  from Check_read_failed [OF h this] show ?thesis by (simp only: c)
qed

lemma Check_refused: "Check gc refused_env t sc = (Some ConnectFailed, sc)"
  by (simp add: Check_def refused_env_def)

lemma good_history:
  "bitrateHistory (commit_sample good_env good_state new_checker) = [600000]"
  "avgBitrate (commit_sample good_env good_state new_checker) = 600000"
proof -
  have len: "length (bitrateHistory new_checker) \<le> 10"
    by (simp add: new_checker_def)
  have pos: "currentBitrate (commit_sample good_env good_state new_checker) > 0"
    by (simp add: good_values)
  from commit_history_step [OF len pos]
  show "bitrateHistory (commit_sample good_env good_state new_checker) = [600000]"
    by (simp add: good_values new_checker_def)
  with commit_history_step [OF len pos]
  show "avgBitrate (commit_sample good_env good_state new_checker) = 600000"
    by (simp add: mean_def)
qed

lemma failed_state_eq:
  "failed_state = MarkFailed 20000000000 (commit_sample good_env good_state new_checker)"
proof -
  have c: "Check (Some example_config) good_env 25000000000 new_checker =
             (None, commit_sample good_env good_state new_checker)"
    by (rule Check_good) (simp add: new_checker_codec)
  show ?thesis by (simp add: failed_state_def run_ops_def c)
qed


lemma example_retry_params:
  "MaxRetries (Exporter (config (NewScheduler example_config))) = 3"
  "attempt_timeout (Exporter (config (NewScheduler example_config))) = 25000000000"
  by (simp_all add: NewScheduler_def example_config_def attempt_timeout_def secs_def wrap64_def
      Second_def)

lemma flaky_results:
  "result_of (Some example_config) t flaky_world new_checker 0 = Some ConnectFailed"
  "state_before (Some example_config) t flaky_world new_checker (Suc 0) = new_checker"
  "result_of (Some example_config) t flaky_world new_checker (Suc 0) = None"
  "state_before (Some example_config) t flaky_world new_checker (Suc (Suc 0)) =
     commit_sample good_env good_state new_checker"
  by (simp_all add: result_of_def flaky_world_def Check_refused Check_good new_checker_codec)

lemma dead_results:
  "result_of gc t dead_world sc k = Some ConnectFailed"
  "state_before gc t dead_world sc k = sc"
proof -
  show s: "state_before gc t dead_world sc k = sc" for k
    by (induction k) (simp_all add: dead_world_def Check_refused)
  show "result_of gc t dead_world sc k = Some ConnectFailed"
    by (simp add: result_of_def s) (simp add: dead_world_def Check_refused)
qed

lemma retryDelay_values:
  "retryDelay 1 = 2000000000" "retryDelay 2 = 4000000000" "retryDelay 3 = 8000000000"
  by (simp_all add: retryDelay_def wrap64_def Second_def)

lemma events_from_four:
  "events_from r 0 4 =
     [Checked (r 0), Slept (retryDelay 1), Checked (r (Suc 0)), Slept (retryDelay 2),
      Checked (r (Suc (Suc 0))), Slept (retryDelay 3), Checked (r (Suc (Suc (Suc 0))))]"
proof -
  have "events_from r 0 (Suc (Suc (Suc (Suc 0)))) =
     [Checked (r 0), Slept (retryDelay 1), Checked (r (Suc 0)), Slept (retryDelay 2),
      Checked (r (Suc (Suc 0))), Slept (retryDelay 3), Checked (r (Suc (Suc (Suc 0))))]"
    by simp
  then show ?thesis by (simp add: eval_nat_numeral)
qed

lemma lower_CDN:
  "ascii_lower ''CDN'' = ''cdn''" "ascii_lower ''cdn'' = ''cdn''"
  "ascii_lower ''Source'' = ''source''" "ascii_lower ''cdn::x'' = ''cdn::x''"
  by code_simp+

lemma dup_entries:
  "entries ascii_lower dup_config =
     [] @ [(''G01'', ''cdn'', first_entry)] @ [] @ [(''G01'', ''cdn'', second_entry)]
       @ [(''G01'', ''source'', third_entry)]"
  by (simp add: entries_def dup_config_def lower_CDN)

lemma collide_entries:
  "entries ascii_lower collide_config =
     [(''G'', ''cdn'', colon_first), (''G'', ''cdn'', colon_second),
      (''G'', ''cdn::x'', colon_other)]"
  by (simp add: entries_def collide_config_def lower_CDN)


section \<open>The overall score (C1)\<close>

text \<open>
  C1. For every snapshot \<open>m\<close> projected at exposition, the exported quality and stability
  scores are the integer levels of the two labels, and the exported overall score is 0
  when the stall ratio is strictly greater than one half and the table entry of the two
  levels otherwise.
\<close>

theorem overall_score_table:
  "video_stream_quality_score (updateMetrics_row m) = real (quality_level (Quality m))
   \<and> video_stream_stability_score (updateMetrics_row m) = real (stability_level (BitrateStability m))
   \<and> video_stream_overall_score (updateMetrics_row m) =
       (if ReadStallRatio m > 1 / 2 then 0
        else real (overall_table (quality_level (Quality m)) (stability_level (BitrateStability m))))"
  by (simp add: updateMetrics_row_def overallScore_def qualityScore_def stabilityScore_def
      quality_level_def stability_level_def Let_def numeral_2_eq_2)


text \<open>
  At a stall ratio of exactly one half, good quality and a stable bit rate give the
  overall score 2; at 0.51 the score is 0.
\<close>

theorem overall_score_table_witness:
  "video_stream_overall_score (updateMetrics_row boundary_metrics) = 2
   \<and> video_stream_overall_score
        (updateMetrics_row (boundary_metrics \<lparr> ReadStallRatio := 51 / 100 \<rparr>)) = 0"
  using overall_score_table [of boundary_metrics]
    overall_score_table [of "boundary_metrics \<lparr> ReadStallRatio := 51 / 100 \<rparr>"]
  by (simp add: boundary_metrics_def quality_level_def stability_level_def numeral_2_eq_2)


section \<open>The quality label (C2)\<close>

text \<open>
  C2. After a successful call of \<open>Check\<close> the committed quality label is the label the
  rule of the specification gives for the committed playable flag, frame rate and bit
  rate. The thresholds are inclusive: playable with exactly 25 fps and 600000 bps is
  good, with 24.999 fps fair, and a snapshot that is not playable is poor.
\<close>

theorem quality_label_thresholds:
  assumes "fst (Check gc env t sc) = None"
  shows "quality (snd (Check gc env t sc)) =
           quality_rule (playable (snd (Check gc env t sc))) (framerate (snd (Check gc env t sc)))
             (currentBitrate (snd (Check gc env t sc)))
       \<and> quality_rule True 25 600000 = ''good''
       \<and> quality_rule True (24999 / 1000) 600000 = ''fair''
       \<and> quality_rule False 25 600000 = ''poor''"
proof -
  from Check_success [OF assms] obtain st where "snd (Check gc env t sc) = commit_sample env st sc"
    by blast
  then show ?thesis
    using commit_quality [of env st sc] by (simp add: quality_rule_def)
qed


text \<open>The sample \<open>good_env\<close> commits exactly 25 fps and 600000 bps, playable, and is good.\<close>

theorem quality_label_thresholds_witness:
  "fst (Check (Some example_config) good_env 25000000000 new_checker) = None
   \<and> playable (snd (Check (Some example_config) good_env 25000000000 new_checker))
   \<and> framerate (snd (Check (Some example_config) good_env 25000000000 new_checker)) = 25
   \<and> currentBitrate (snd (Check (Some example_config) good_env 25000000000 new_checker)) = 600000
   \<and> quality (snd (Check (Some example_config) good_env 25000000000 new_checker)) = ''good''"
proof -
  have c: "Check (Some example_config) good_env 25000000000 new_checker =
             (None, commit_sample good_env good_state new_checker)"
    by (rule Check_good) (simp add: new_checker_codec)
  then have h: "fst (Check (Some example_config) good_env 25000000000 new_checker) = None"
    by simp
  from quality_label_thresholds [OF h] show ?thesis
    by (simp add: c good_values)
qed


section \<open>The playable flag (C3)\<close>

text \<open>
  C3. In every snapshot reached from a new checker by calls of \<open>Check\<close> (successful or
  not) and of \<open>MarkFailed\<close>, in any order, the playable flag is true if and only if the
  snapshot has at least two key frames and more than ten video packets.
\<close>

theorem playable_iff_keyframes_and_packets:
  "playable (run_ops gc ops (NewStreamChecker nm i u p l lbls))
     = (keyframes (run_ops gc ops (NewStreamChecker nm i u p l lbls)) \<ge> 2
        \<and> videoPackets (run_ops gc ops (NewStreamChecker nm i u p l lbls)) > 10)"
proof -
  have "playable_consistent (NewStreamChecker nm i u p l lbls)"
    by (simp add: playable_consistent_def)
  from run_ops_playable_consistent [OF this] show ?thesis
    by (simp add: playable_consistent_def)
qed


text \<open>After the sample \<open>good_env\<close> the flag is true, with 2 key frames and 11 video packets.\<close>

theorem playable_iff_keyframes_and_packets_witness:
  "playable (run_ops (Some example_config) [OpCheck good_env 25000000000] new_checker)
   \<and> keyframes (run_ops (Some example_config) [OpCheck good_env 25000000000] new_checker) = 2
   \<and> videoPackets (run_ops (Some example_config) [OpCheck good_env 25000000000] new_checker) = 11"
proof -
  have c: "Check (Some example_config) good_env 25000000000 new_checker =
             (None, commit_sample good_env good_state new_checker)"
    by (rule Check_good) (simp add: new_checker_codec)
  have r: "run_ops (Some example_config) [OpCheck good_env 25000000000] new_checker =
             commit_sample good_env good_state new_checker"
    by (simp add: run_ops_def c)
  have k: "keyframes (commit_sample good_env good_state new_checker) = 2"
    and v: "videoPackets (commit_sample good_env good_state new_checker) = 11"
    by (simp_all add: good_values)
  from playable_iff_keyframes_and_packets
         [of "Some example_config" "[OpCheck good_env 25000000000]" example_name "''s1''"
             "''http://h/a.flv''" "''G01''" "''cdn''" Map.empty]
  show ?thesis
    unfolding new_checker_def [symmetric] r by (simp add: k v)
qed


section \<open>The bit-rate history (C4)\<close>

text \<open>
  After a successful cycle and \<open>MarkFailed\<close> the history still holds the bit rate of the
  cycle, 600000, while the average bit rate is 0: the average is not the mean of the
  history.
\<close>

theorem avg_bitrate_not_mean_after_MarkFailed:
  "bitrateHistory failed_state = [600000]
   \<and> avgBitrate failed_state = 0
   \<and> avgBitrate failed_state \<noteq> mean (bitrateHistory failed_state)"
  by (simp add: failed_state_eq good_history mean_def)


text \<open>
  C4, as the code has it. In every snapshot \<open>sc\<close> reached from a new checker by calls of
  \<open>Check\<close> and \<open>MarkFailed\<close>, the history holds at most 10 bit rates, and the average bit
  rate is 0 or the mean of the (then non-empty) history. \<open>MarkFailed\<close> keeps the history
  and sets the average to 0. A successful \<open>Check\<close> that commits a positive bit rate appends
  it, drops the oldest entry when there were already 10, and commits the mean of the new
  history as the average; any other call of \<open>Check\<close> leaves history and average as they
  were.
\<close>

theorem history_bounded_avg_zero_or_mean:
  assumes "sc = run_ops gc ops (NewStreamChecker nm i u p l lbls)"
  shows "length (bitrateHistory sc) \<le> 10
       \<and> (avgBitrate sc = 0 \<or> (bitrateHistory sc \<noteq> [] \<and> avgBitrate sc = mean (bitrateHistory sc)))
       \<and> bitrateHistory (MarkFailed now sc) = bitrateHistory sc
       \<and> avgBitrate (MarkFailed now sc) = 0
       \<and> (if fst (Check gc env t sc) = None \<and> currentBitrate (snd (Check gc env t sc)) > 0
          then bitrateHistory (snd (Check gc env t sc)) =
                 drop (length (bitrateHistory sc) - 9)
                   (bitrateHistory sc @ [currentBitrate (snd (Check gc env t sc))])
               \<and> bitrateHistory (snd (Check gc env t sc)) \<noteq> []
               \<and> avgBitrate (snd (Check gc env t sc)) = mean (bitrateHistory (snd (Check gc env t sc)))
          else bitrateHistory (snd (Check gc env t sc)) = bitrateHistory sc
               \<and> avgBitrate (snd (Check gc env t sc)) = avgBitrate sc)"
proof -
  have "history_consistent (NewStreamChecker nm i u p l lbls)"
    by (simp add: history_consistent_def)
  from run_ops_history_consistent [OF this] assms have hc: "history_consistent sc"
    by simp
  then have len: "length (bitrateHistory sc) \<le> 10"
    by (simp add: history_consistent_def)
  have step: "if fst (Check gc env t sc) = None \<and> currentBitrate (snd (Check gc env t sc)) > 0
          then bitrateHistory (snd (Check gc env t sc)) =
                 drop (length (bitrateHistory sc) - 9)
                   (bitrateHistory sc @ [currentBitrate (snd (Check gc env t sc))])
               \<and> bitrateHistory (snd (Check gc env t sc)) \<noteq> []
               \<and> avgBitrate (snd (Check gc env t sc)) = mean (bitrateHistory (snd (Check gc env t sc)))
          else bitrateHistory (snd (Check gc env t sc)) = bitrateHistory sc
               \<and> avgBitrate (snd (Check gc env t sc)) = avgBitrate sc"
  proof (cases "fst (Check gc env t sc)")
    case None
    then obtain st where st: "snd (Check gc env t sc) = commit_sample env st sc"
      using Check_success by blast
    show ?thesis
    proof (cases "currentBitrate (commit_sample env st sc) > 0")
      case True
      from commit_history_step [OF len True] None True show ?thesis
        by (simp add: st)
    next
      case False
      obtain sc2 where d: "commit_sample env st sc = assess_quality st (update_history sc2)"
        "bitrateHistory sc2 = bitrateHistory sc" "avgBitrate sc2 = avgBitrate sc"
        using commit_decomp by blast
      from False have "\<not> currentBitrate sc2 > 0" by (simp add: d(1))
      then have "update_history sc2 = sc2" by (rule update_history_unchanged)
      with False d show ?thesis by (simp add: st)
    qed
  next
    case (Some e)
    from Check_failure_fields [OF this] Some show ?thesis by simp
  qed
  from hc step show ?thesis
    by (simp add: history_consistent_def)
qed


text \<open>
  From the state after a successful cycle and \<open>MarkFailed\<close>, the next successful cycle
  commits the history of both bit rates and their mean.
\<close>

theorem history_bounded_avg_zero_or_mean_witness:
  "length (bitrateHistory failed_state) \<le> 10
   \<and> avgBitrate failed_state = 0
   \<and> bitrateHistory (snd (Check (Some example_config) good_env 25000000000 failed_state))
       = [600000, 600000]
   \<and> avgBitrate (snd (Check (Some example_config) good_env 25000000000 failed_state)) = 600000"
proof -
  have cd: "codec failed_state = []"
    by (simp add: failed_state_eq MarkFailed_def)
  have c: "Check (Some example_config) good_env 25000000000 failed_state =
             (None, commit_sample good_env good_state failed_state)"
    by (rule Check_good) (simp add: cd)
  have h: "bitrateHistory failed_state = [600000]"
    by (simp add: failed_state_eq good_history)
  have "failed_state = run_ops (Some example_config)
          [OpCheck good_env 25000000000, OpMarkFailed 20000000000]
          (NewStreamChecker example_name ''s1'' ''http://h/a.flv'' ''G01'' ''cdn'' Map.empty)"
    by (simp add: failed_state_def new_checker_def)
  note inst = history_bounded_avg_zero_or_mean
         [OF this, where env = good_env and t = 25000000000 and now = 0]
  have a0: "avgBitrate failed_state = 0"
    by (simp add: failed_state_eq)
  from inst a0 show ?thesis
    by (simp add: c good_values h mean_def)
qed


section \<open>The retry wrapper (C5)\<close>

text \<open>
  With the first attempt refused and the second successful, the wrapper sleeps once, for
  2 seconds, between the first and the second attempt: not for \<open>2 ^ (1 + 1)\<close> seconds.
\<close>

theorem first_retry_sleeps_two_seconds:
  "snd (snd (checkWithRetry (Some example_config) (NewScheduler example_config) flaky_world 0
              new_checker))
     = [Checked (Some ConnectFailed), Slept (2 * Second), Checked None]
   \<and> 2 * Second \<noteq> 2 ^ (1 + 1) * Second"
proof -
  have "retry_loop (Some example_config) 3 25000000000 flaky_world 0 0 None new_checker [] =
          (None, state_before (Some example_config) 25000000000 flaky_world new_checker (Suc (Suc 0)),
           events_from (result_of (Some example_config) 25000000000 flaky_world new_checker) 0
             (Suc (Suc 0)))"
    by (rule checkWithRetry_succeeds) (simp_all add: flaky_results)
  then show ?thesis
    by (simp add: checkWithRetry_def example_retry_params flaky_results retryDelay_values
        Second_def del: state_before.simps)
qed


text \<open>
  C5, as the code has it. Let \<open>M\<close> be \<open>max_retries\<close> and count the attempts from 0.
  \<^item> If attempt \<open>j \<le> M\<close> is the first to succeed, the wrapper returns success with the
    snapshot that attempt committed, after exactly the attempts \<open>0, \<dots>, j\<close>; before each
    attempt \<open>a > 0\<close> it has slept \<open>retryDelay a\<close>.
  \<^item> If the attempts \<open>0, \<dots>, M\<close> all fail, it has made them all with the same sleeps, has
    called \<open>MarkFailed\<close> on the snapshot, and returns the error of the last attempt (no error
    when \<open>M\<close> is negative and no attempt was made).
  \<^item> \<open>Check\<close> runs at most \<open>M + 1\<close> times.
  \<^item> For \<open>a \<le> 33\<close> the sleep \<open>retryDelay a\<close> is \<open>2 ^ a\<close> seconds: 2 s between the first and the
    second attempt, then 4 s, 8 s and so on.
\<close>

theorem checkWithRetry_backoff:
  assumes "M = MaxRetries (Exporter (config s))"
    and "T = attempt_timeout (Exporter (config s))"
  shows "((\<forall>k<j. result_of gc T w sc k \<noteq> None) \<and> result_of gc T w sc j = None \<and> int j \<le> M
            \<longrightarrow> checkWithRetry gc s w ft sc =
                  (None, state_before gc T w sc (Suc j),
                   events_from (result_of gc T w sc) 0 (Suc j)))
       \<and> ((\<forall>k. int k \<le> M \<longrightarrow> result_of gc T w sc k \<noteq> None)
            \<longrightarrow> checkWithRetry gc s w ft sc =
                  (if M < 0 then None else result_of gc T w sc (nat M),
                   MarkFailed ft (state_before gc T w sc (nat (M + 1))),
                   events_from (result_of gc T w sc) 0 (nat (M + 1)) @ [MarkedFailed]))
       \<and> length (filter is_check (snd (snd (checkWithRetry gc s w ft sc)))) \<le> nat (M + 1)
       \<and> (\<forall>k\<le>33. retryDelay (int k) = 2 ^ k * Second)"
proof (intro conjI impI allI)
  have cw: "checkWithRetry gc s w ft sc = retry_loop gc M T w ft 0 None sc []"
    by (simp add: checkWithRetry_def assms)
  {
    assume a: "(\<forall>k<j. result_of gc T w sc k \<noteq> None) \<and> result_of gc T w sc j = None \<and> int j \<le> M"
    then have a1: "\<forall>k<j. result_of gc T w sc k \<noteq> None"
      and a2: "result_of gc T w sc j = None" and a3: "int j \<le> M"
      by simp_all
    show "checkWithRetry gc s w ft sc =
            (None, state_before gc T w sc (Suc j), events_from (result_of gc T w sc) 0 (Suc j))"
      unfolding cw by (rule checkWithRetry_succeeds [OF a1 a2 a3])
  }
  {
    assume b: "\<forall>k. int k \<le> M \<longrightarrow> result_of gc T w sc k \<noteq> None"
    show "checkWithRetry gc s w ft sc =
            (if M < 0 then None else result_of gc T w sc (nat M),
             MarkFailed ft (state_before gc T w sc (nat (M + 1))),
             events_from (result_of gc T w sc) 0 (nat (M + 1)) @ [MarkedFailed])"
      unfolding cw by (rule checkWithRetry_exhausted [OF b])
  }
  show "length (filter is_check (snd (snd (checkWithRetry gc s w ft sc)))) \<le> nat (M + 1)"
  proof (cases "\<exists>j. int j \<le> M \<and> result_of gc T w sc j = None")
    case True
    define i where "i = (LEAST j. int j \<le> M \<and> result_of gc T w sc j = None)"
    have "int i \<le> M \<and> result_of gc T w sc i = None"
      unfolding i_def using True by (rule LeastI_ex)
    then have i: "int i \<le> M" "result_of gc T w sc i = None"
      by simp_all
    have least: "\<not> (int k \<le> M \<and> result_of gc T w sc k = None)" if "k < i" for k
      using that unfolding i_def by (rule not_less_Least)
    have "\<forall>k<i. result_of gc T w sc k \<noteq> None"
    proof (intro allI impI)
      fix k assume "k < i"
      with i have kM: "int k \<le> M" by simp
      from least [OF \<open>k < i\<close>] kM show "result_of gc T w sc k \<noteq> None" by simp
    qed
    from checkWithRetry_succeeds [OF this i(2) i(1)]
    have "retry_loop gc M T w ft 0 None sc [] =
           (None, state_before gc T w sc (Suc i), events_from (result_of gc T w sc) 0 (Suc i))" .
    then have "length (filter is_check (snd (snd (checkWithRetry gc s w ft sc)))) = Suc i"
      by (simp only: cw snd_conv events_from_checks)
    with i(1) show ?thesis by simp
  next
    case False
    then have "\<forall>k. int k \<le> M \<longrightarrow> result_of gc T w sc k \<noteq> None" by simp
    from checkWithRetry_exhausted [OF this]
    have "snd (snd (checkWithRetry gc s w ft sc)) =
           events_from (result_of gc T w sc) 0 (nat (M + 1)) @ [MarkedFailed]"
      by (simp only: cw snd_conv)
    then show ?thesis by (simp add: events_from_checks)
  qed
  fix k :: nat
  assume "k \<le> 33"
  then show "retryDelay (int k) = 2 ^ k * Second" by (rule retryDelay_pow)
qed


text \<open>
  With three retries: a refused first attempt and a successful second one give one sleep
  of 2 s; four refused attempts give sleeps of 2 s, 4 s and 8 s, then \<open>MarkFailed\<close> and the
  last error.
\<close>

theorem checkWithRetry_backoff_witness:
  "checkWithRetry (Some example_config) (NewScheduler example_config) flaky_world 0 new_checker
     = (None, commit_sample good_env good_state new_checker,
        [Checked (Some ConnectFailed), Slept 2000000000, Checked None])
   \<and> checkWithRetry (Some example_config) (NewScheduler example_config) dead_world 7 new_checker
     = (Some ConnectFailed, MarkFailed 7 new_checker,
        [Checked (Some ConnectFailed), Slept 2000000000, Checked (Some ConnectFailed),
         Slept 4000000000, Checked (Some ConnectFailed), Slept 8000000000,
         Checked (Some ConnectFailed), MarkedFailed])"
proof -
  have p: "(3::int) = MaxRetries (Exporter (config (NewScheduler example_config)))"
    "(25000000000::int) = attempt_timeout (Exporter (config (NewScheduler example_config)))"
    by (simp_all add: example_retry_params)
  have ha: "(\<forall>k<Suc 0. result_of (Some example_config) 25000000000 flaky_world new_checker k \<noteq> None)
      \<and> result_of (Some example_config) 25000000000 flaky_world new_checker (Suc 0) = None
      \<and> int (Suc 0) \<le> 3"
    by (simp add: flaky_results)
  from checkWithRetry_backoff [OF p, where j = "Suc 0" and gc = "Some example_config"
      and w = flaky_world and sc = new_checker and ft = 0, THEN conjunct1, THEN mp, OF ha]
  have a: "checkWithRetry (Some example_config) (NewScheduler example_config) flaky_world 0 new_checker
     = (None, commit_sample good_env good_state new_checker,
        [Checked (Some ConnectFailed), Slept 2000000000, Checked None])"
    by (simp add: flaky_results retryDelay_values del: state_before.simps)
  have hb: "\<forall>k. int k \<le> 3 \<longrightarrow> result_of (Some example_config) 25000000000 dead_world new_checker k \<noteq> None"
    by (simp add: dead_results)
  from checkWithRetry_backoff [OF p, where gc = "Some example_config"
      and w = dead_world and sc = new_checker and ft = 7, THEN conjunct2, THEN conjunct1, THEN mp, OF hb]
  have b: "checkWithRetry (Some example_config) (NewScheduler example_config) dead_world 7 new_checker
     = (Some ConnectFailed, MarkFailed 7 new_checker,
        [Checked (Some ConnectFailed), Slept 2000000000, Checked (Some ConnectFailed),
         Slept 4000000000, Checked (Some ConnectFailed), Slept 8000000000,
         Checked (Some ConnectFailed), MarkedFailed])"
    by (simp add: dead_results retryDelay_values events_from_four del: state_before.simps)
  from a b show ?thesis by simp
qed


section \<open>Throughput and stall ratio (C6)\<close>

text \<open>
  C6 at the sample \<open>late_env\<close>. The sampling loop starts 1 s after the call and ends 10 s
  later, having read 1100 bytes and stalled for 5.5 s. The committed throughput is
  \<open>8800 / 11 = 800\<close> and the committed stall ratio \<open>5.5 / 11 = 1 / 2\<close>: both divide by the
  11 s since the start of the call. Divided by the 10 s since the start of the sampling
  loop they would be 880 and \<open>11 / 20\<close>.
\<close>

theorem throughput_and_stall_ratio_divide_by_time_since_start:
  "fst (Check (Some example_config) late_env 25000000000 new_checker) = None
   \<and> snd (Check (Some example_config) late_env 25000000000 new_checker)
       = commit_sample late_env late_state new_checker
   \<and> totalBytes (reader late_state) = 1100
   \<and> totalStall (reader late_state) = 5500000000
   \<and> Seconds (endTime late_env - sampleStartTime late_env) = 10
   \<and> Seconds (endTime late_env - startTime late_env) = 11
   \<and> readThroughputBps (snd (Check (Some example_config) late_env 25000000000 new_checker)) = 800
   \<and> real_of_int (totalBytes (reader late_state) * 8)
         / Seconds (endTime late_env - sampleStartTime late_env) = 880
   \<and> readStallRatio (snd (Check (Some example_config) late_env 25000000000 new_checker)) = 1 / 2
   \<and> Seconds (totalStall (reader late_state))
         / Seconds (endTime late_env - sampleStartTime late_env) = 11 / 20"
proof -
  have v: "totalBytes (reader late_state) = 1100" "totalStall (reader late_state) = 5500000000"
    by (simp_all add: late_state_def)
  have e: "endTime late_env = 11000000000" "startTime late_env = 0"
    "sampleStartTime late_env = 1000000000"
    by (simp_all add: late_env_def)
  show ?thesis
    by (simp add: Check_late commit_throughput commit_ratio v e Seconds_def)
qed


section \<open>The frame rate (C7)\<close>

text \<open>
  C7 at two cycles. The first, \<open>good_env\<close>, commits 25 fps. The second, \<open>single_env\<close>, is
  successful with a single video packet, so that its last decode time stamp is not after
  its first; the frame rate committed by it is still 25, not 0.
\<close>

theorem framerate_kept_when_dts_window_invalid:
  "fst (Check (Some example_config) good_env 25000000000 new_checker) = None
   \<and> framerate (snd (Check (Some example_config) good_env 25000000000 new_checker)) = 25
   \<and> Check (Some example_config) single_env 25000000000
        (snd (Check (Some example_config) good_env 25000000000 new_checker))
       = (None, commit_sample single_env single_state
                  (snd (Check (Some example_config) good_env 25000000000 new_checker)))
   \<and> videoCount single_state = 1
   \<and> lastDTS single_state = firstDTS single_state
   \<and> framerate (snd (Check (Some example_config) single_env 25000000000
        (snd (Check (Some example_config) good_env 25000000000 new_checker)))) = 25"
proof -
  have c: "Check (Some example_config) good_env 25000000000 new_checker =
             (None, commit_sample good_env good_state new_checker)"
    by (rule Check_good) (simp add: new_checker_codec)
  have cd: "codec (commit_sample good_env good_state new_checker) = ''H264''"
    by (simp add: commit_codec good_state_def)
  have s: "Check (Some example_config) single_env 25000000000
             (commit_sample good_env good_state new_checker)
           = (None, commit_sample single_env single_state
                      (commit_sample good_env good_state new_checker))"
    by (rule Check_single) (rule cd)
  have f: "framerate (commit_sample single_env single_state
                      (commit_sample good_env good_state new_checker)) = 25"
  proof -
    have "framerate (commit_sample single_env single_state
                      (commit_sample good_env good_state new_checker))
          = framerate (commit_sample good_env good_state new_checker)"
      by (subst commit_framerate) (simp add: single_state_def)
    then show ?thesis by (simp add: good_values)
  qed
  show ?thesis
    by (simp add: c s f good_values) (simp add: single_state_def)
qed


section \<open>A failed attempt (C8)\<close>

text \<open>
  On a new checker, whose codec is empty, an attempt that reads one video packet and then
  fails returns the read error and leaves the codec set to H264.
\<close>

theorem failed_check_sets_codec:
  "fst (Check (Some example_config) broken_env 25000000000 new_checker) = Some ReadPacketFailed
   \<and> codec new_checker = []
   \<and> codec (snd (Check (Some example_config) broken_env 25000000000 new_checker)) = ''H264''
   \<and> snd (Check (Some example_config) broken_env 25000000000 new_checker) \<noteq> new_checker"
proof -
  have "new_checker \<lparr> codec := ''H264'' \<rparr> \<noteq> new_checker"
  proof
    assume "new_checker \<lparr> codec := ''H264'' \<rparr> = new_checker"
    then have "codec (new_checker \<lparr> codec := ''H264'' \<rparr>) = codec new_checker" by simp
    then show False by (simp add: new_checker_codec)
  qed
  then show ?thesis
    by (simp add: Check_broken new_checker_codec)
qed


text \<open>
  C8, as the code has it. A call of \<open>Check\<close> that returns an error leaves the checker as
  it was, with one exception: when the error is a failed packet read, the codec was empty
  and a video packet was read before the failure, the codec is set to H264, every other
  field being unchanged. In every other case of a failure (no video packet read before a
  failed read, a codec already set, or any other error) nothing changes.
\<close>

theorem failed_check_keeps_all_but_codec:
  assumes "fst (Check gc env t sc) = Some e"
  shows "snd (Check gc env t sc) =
           (if e = ReadPacketFailed \<and> codec sc = [] \<and> hasVideo (snd (loop_end gc env sc))
            then sc \<lparr> codec := ''H264'' \<rparr> else sc)"
proof (cases gc env t sc rule: Check_shape)
  case (returned e')
  with assms have "e \<noteq> ReadPacketFailed" by simp
  with returned show ?thesis by simp
next
  case (sampled ok st)
  then have run: "loop_end gc env sc = (ok, st)" by (simp add: loop_end_def)
  note chk = sampled(2)
  from loop_end_codec [of gc env sc] have cd:
    "loopCodec st = (if codec sc = [] \<and> hasVideo st then ''H264'' else codec sc)"
    by (simp add: run)
  show ?thesis
  proof (cases ok)
    case False
    with chk assms
    have r: "e = ReadPacketFailed" "snd (Check gc env t sc) = sc \<lparr> codec := loopCodec st \<rparr>"
      by simp_all
    with cd show ?thesis by (simp add: run)
  next
    case True
    with chk assms have nv: "\<not> hasVideo st" and e: "e = NoVideoStream"
      by (auto split: if_splits)
    from chk True nv cd show ?thesis by (simp add: e)
  qed
qed


text \<open>
  On a new checker the attempt \<open>broken_env\<close>, which reads a video packet before the failed
  read, changes the codec and nothing else; the attempt \<open>blind_env\<close>, whose first read
  fails, and the refused attempt change nothing.
\<close>

theorem failed_check_keeps_all_but_codec_witness:
  "fst (Check (Some example_config) broken_env 25000000000 new_checker) = Some ReadPacketFailed
   \<and> snd (Check (Some example_config) broken_env 25000000000 new_checker)
       = new_checker \<lparr> codec := ''H264'' \<rparr>
   \<and> fst (Check (Some example_config) blind_env 25000000000 new_checker) = Some ReadPacketFailed
   \<and> snd (Check (Some example_config) blind_env 25000000000 new_checker) = new_checker
   \<and> fst (Check (Some example_config) refused_env 25000000000 new_checker) = Some ConnectFailed
   \<and> snd (Check (Some example_config) refused_env 25000000000 new_checker) = new_checker"
proof -
  have h1: "fst (Check (Some example_config) broken_env 25000000000 new_checker) = Some ReadPacketFailed"
    by (rule Check_read_failed_fst) (simp add: broken_env_def, simp add: loop_end_broken)
  have h2: "fst (Check (Some example_config) blind_env 25000000000 new_checker) = Some ReadPacketFailed"
    by (rule Check_read_failed_fst) (simp add: blind_env_def, simp add: loop_end_blind)
  have h3: "fst (Check (Some example_config) refused_env 25000000000 new_checker) = Some ConnectFailed"
    by (simp add: Check_refused)
  have v1: "hasVideo (snd (loop_end (Some example_config) broken_env new_checker))"
    by (simp add: loop_end_broken broken_state_def)
  have v2: "\<not> hasVideo (snd (loop_end (Some example_config) blind_env new_checker))"
    by (simp add: loop_end_blind blind_state_def)
  from failed_check_keeps_all_but_codec [OF h1] v1
  have a: "snd (Check (Some example_config) broken_env 25000000000 new_checker)
       = new_checker \<lparr> codec := ''H264'' \<rparr>"
    by (simp add: new_checker_codec)
  from failed_check_keeps_all_but_codec [OF h2] v2
  have b: "snd (Check (Some example_config) blind_env 25000000000 new_checker) = new_checker"
    by simp
  from failed_check_keeps_all_but_codec [OF h3]
  have c: "snd (Check (Some example_config) refused_env 25000000000 new_checker) = new_checker"
    by simp
  from h1 h2 h3 a b c show ?thesis by simp
qed


section \<open>The time-out of an attempt (C9)\<close>

text \<open>
  C9 at a sample duration of 20 s and a check interval of 25 s. The time-out is 20 s,
  below the 25 s that the sample duration plus 5 s gives.
\<close>

theorem long_interval_lowers_timeout:
  "SampleDuration tight_config = 20
   \<and> CheckInterval tight_config = 25
   \<and> attempt_timeout tight_config = 20 * Second
   \<and> attempt_timeout tight_config < (SampleDuration tight_config + 5) * Second"
  by (simp add: tight_config_def attempt_timeout_def secs_def wrap64_def Second_def)


section \<open>Two entries with one key (C10)\<close>

text \<open>
  The key is the string \<open>project::line::url\<close>, and entries of different triples can have
  the same key. In \<open>collide_config\<close> the two entries of (\<open>G\<close>, \<open>cdn\<close>, \<open>x::y\<close>) are followed
  by the entry of (\<open>G\<close>, \<open>cdn::x\<close>, \<open>y\<close>), which has their key. After registration the map
  has this one key, and it holds the checker of the third entry, with id \<open>s3\<close>: no
  checker is left for the triple of the first two entries, and the id of the last entry
  of that triple is not in the map.
\<close>

theorem key_collision_evicts_last_entry_of_triple:
  "entries ascii_lower collide_config =
     [(''G'', ''cdn'', colon_first), (''G'', ''cdn'', colon_second),
      (''G'', ''cdn::x'', colon_other)]
   \<and> cfgURL colon_first = ''x::y'' \<and> cfgURL colon_second = ''x::y'' \<and> cfgURL colon_other = ''y''
   \<and> dom (checkers (register_streams ascii_lower example_name collide_config))
       = {stream_key ''G'' ''cdn'' ''x::y''}
   \<and> checkers (register_streams ascii_lower example_name collide_config)
         (stream_key ''G'' ''cdn'' ''x::y'')
       = Some (entry_checker example_name (''G'', ''cdn::x'', colon_other))
   \<and> sid (entry_checker example_name (''G'', ''cdn::x'', colon_other)) = ''s3''
   \<and> line (entry_checker example_name (''G'', ''cdn::x'', colon_other)) = ''cdn::x''
   \<and> url (entry_checker example_name (''G'', ''cdn::x'', colon_other)) = ''y''"
proof -
  have k: "entry_key (''G'', ''cdn'', colon_first) = stream_key ''G'' ''cdn'' ''x::y''"
    "entry_key (''G'', ''cdn'', colon_second) = stream_key ''G'' ''cdn'' ''x::y''"
    "entry_key (''G'', ''cdn::x'', colon_other) = stream_key ''G'' ''cdn'' ''x::y''"
    by (simp_all add: entry_key_def stream_key_def colon_first_def colon_second_def
        colon_other_def)
  have m: "checkers (register_streams ascii_lower example_name collide_config) =
             [stream_key ''G'' ''cdn'' ''x::y'' \<mapsto>
                entry_checker example_name (''G'', ''cdn::x'', colon_other)]"
    by (simp add: register_streams_flat collide_entries add_flat_checkers k NewScheduler_def)
  show ?thesis
    by (simp add: m collide_entries entry_checker_triple)
       (simp add: colon_first_def colon_second_def colon_other_def)
qed


text \<open>
  C10, as the code has it. Let the entries be registered in the order \<open>xs, a, ys, b, zs\<close>,
  where \<open>a\<close> and \<open>b\<close> have the same project, lower-cased group and URL. When \<open>b\<close> has been
  registered, the checker map holds at their common key the checker made from \<open>b\<close>, with
  the id and the tags of \<open>b\<close>. If moreover no entry of \<open>zs\<close> has the key string of \<open>b\<close>,
  the map still holds that checker at the key when all entries are registered, and every
  checker of the map with that project, line and URL is this one.
\<close>

theorem later_entry_replaces_earlier:
  assumes "entries toLower cfg = xs @ [a] @ ys @ [b] @ zs"
    and "fst a = fst b" and "fst (snd a) = fst (snd b)"
    and "cfgURL (snd (snd a)) = cfgURL (snd (snd b))"
  shows "checkers (foldl (add_flat nm) (NewScheduler cfg) (xs @ [a] @ ys @ [b])) (entry_key a)
           = Some (entry_checker nm b)
       \<and> sid (entry_checker nm b) = cfgID (snd (snd b))
       \<and> labels (entry_checker nm b) = stream_tags (fst b) (fst (snd b)) (snd (snd b))
       \<and> ((\<forall>z\<in>set zs. entry_key z \<noteq> entry_key b) \<longrightarrow>
            checkers (register_streams toLower nm cfg) (entry_key a) = Some (entry_checker nm b)
            \<and> (\<forall>c\<in>ran (checkers (register_streams toLower nm cfg)).
                  project c = fst a \<and> line c = fst (snd a) \<and> url c = cfgURL (snd (snd a))
                    \<longrightarrow> c = entry_checker nm b))"
proof -
  have key: "entry_key a = entry_key b"
    using assms(2-4) by (simp add: entry_key_def)
  have first: "checkers (foldl (add_flat nm) (NewScheduler cfg) (xs @ [a] @ ys @ [b])) (entry_key a)
           = Some (entry_checker nm b)"
    by (simp add: add_flat_checkers key)
  have last: "checkers (register_streams toLower nm cfg) (entry_key a) = Some (entry_checker nm b)
            \<and> (\<forall>c\<in>ran (checkers (register_streams toLower nm cfg)).
                  project c = fst a \<and> line c = fst (snd a) \<and> url c = cfgURL (snd (snd a))
                    \<longrightarrow> c = entry_checker nm b)"
    if none: "\<forall>z\<in>set zs. entry_key z \<noteq> entry_key b"
  proof -
    have "checkers (register_streams toLower nm cfg) (entry_key b) =
            checkers (foldl (add_flat nm) (NewScheduler cfg) (xs @ [a] @ ys @ [b])) (entry_key b)"
      using foldl_add_flat_other [OF none]
      by (simp add: register_streams_flat assms(1))
    then have at: "checkers (register_streams toLower nm cfg) (entry_key b) = Some (entry_checker nm b)"
      by (simp add: add_flat_checkers)
    have only: "c = entry_checker nm b"
      if c: "c \<in> ran (checkers (register_streams toLower nm cfg))"
        and t: "project c = fst a \<and> line c = fst (snd a) \<and> url c = cfgURL (snd (snd a))" for c
    proof -
      from c obtain k where k: "checkers (register_streams toLower nm cfg) k = Some c"
        by (auto simp: ran_def)
      with register_streams_keyed [of toLower nm cfg]
      have "k = stream_key (project c) (line c) (url c)"
        by (simp add: keyed_by_triple_def)
      with t have "k = entry_key a" by (simp add: entry_key_def)
      with k at key show ?thesis by simp
    qed
    from at key only show ?thesis by simp
  qed
  from first last show ?thesis
    by (simp add: entry_checker_triple)
qed


text \<open>
  The groups \<open>CDN\<close> and \<open>cdn\<close> of one project with the same URL, followed by an entry
  under another key: the map holds the checker of the second entry, with its id and its
  tag.
\<close>

theorem later_entry_replaces_earlier_witness:
  "checkers (register_streams ascii_lower example_name dup_config) ''G01::cdn::http://h/a.flv''
     = Some (entry_checker example_name (''G01'', ''cdn'', second_entry))
   \<and> sid (entry_checker example_name (''G01'', ''cdn'', second_entry)) = ''s2''
   \<and> labels (entry_checker example_name (''G01'', ''cdn'', second_entry)) ''id'' = Some ''s2''
   \<and> labels (entry_checker example_name (''G01'', ''cdn'', second_entry)) ''tag'' = Some ''t''"
proof -
  have u: "cfgURL (snd (snd (''G01'', ''cdn'', first_entry)))
             = cfgURL (snd (snd (''G01'', ''cdn'', second_entry)))"
    by (simp add: first_entry_def second_entry_def)
  have z: "\<forall>z\<in>set [(''G01'', ''source'', third_entry)].
             entry_key z \<noteq> entry_key (''G01'', ''cdn'', second_entry)"
    by (simp add: entry_key_def stream_key_def)
  note inst = later_entry_replaces_earlier [OF dup_entries _ _ u, where nm = example_name]
  have g: "checkers (register_streams ascii_lower example_name dup_config)
             (entry_key (''G01'', ''cdn'', first_entry))
           = Some (entry_checker example_name (''G01'', ''cdn'', second_entry))"
    using inst z by simp
  have i: "sid (entry_checker example_name (''G01'', ''cdn'', second_entry)) = ''s2''"
    and l: "labels (entry_checker example_name (''G01'', ''cdn'', second_entry)) =
             stream_tags ''G01'' ''cdn'' second_entry"
    using inst by (simp_all add: second_entry_def)
  from g i l show ?thesis
    by (simp add: entry_key_def stream_key_def first_entry_def second_entry_def stream_tags_def)
qed

end
